theory Spec2Isabelle
  imports Complex_Main "HOL-Library.Multiset"
begin

section \<open>Floating-point values\<close>

text \<open>
  The renderer computes with C++ \<^verbatim>\<open>float\<close> and \<^verbatim>\<open>double\<close>. Their values are modelled by one
  type: a real number, or one of the IEEE-754 special values \<open>+inf\<close>, \<open>-inf\<close> and NaN. The
  sign of a zero is not modelled. The operators \<open>+\<close>, \<open>-\<close>, \<open>*\<close>, \<open>/\<close> of this type are exact on
  finite values and follow IEEE-754 on the special values (\<open>1/0 = +inf\<close>, \<open>0 * inf = NaN\<close>,
  \<open>inf - inf = NaN\<close>, every comparison with NaN is false). The section on rounding adds the
  operations of the two formats, which round the exact result. The intersection tests
  (rays, boxes, triangles, spheres) are modelled with the rounding operations; the colour
  arithmetic of shading and filtering with the exact operators.
\<close>

datatype fl = Fin real | PInf | NInf | NaN

instantiation fl :: "{plus, minus, uminus, times, inverse, ord, abs}"
begin

fun uminus_fl :: "fl \<Rightarrow> fl" where
  "uminus_fl (Fin a) = Fin (- a)"
| "uminus_fl PInf = NInf"
| "uminus_fl NInf = PInf"
| "uminus_fl NaN = NaN"

fun plus_fl :: "fl \<Rightarrow> fl \<Rightarrow> fl" where
  "plus_fl (Fin a) (Fin b) = Fin (a + b)"
| "plus_fl NaN _ = NaN"
| "plus_fl _ NaN = NaN"
| "plus_fl PInf NInf = NaN"
| "plus_fl NInf PInf = NaN"
| "plus_fl PInf _ = PInf"
| "plus_fl _ PInf = PInf"
| "plus_fl NInf _ = NInf"
| "plus_fl _ NInf = NInf"

definition minus_fl :: "fl \<Rightarrow> fl \<Rightarrow> fl" where
  "minus_fl a b = a + (- b)"

fun times_fl :: "fl \<Rightarrow> fl \<Rightarrow> fl" where
  "times_fl (Fin a) (Fin b) = Fin (a * b)"
| "times_fl NaN _ = NaN"
| "times_fl _ NaN = NaN"
| "times_fl (Fin a) PInf = (if a = 0 then NaN else if 0 < a then PInf else NInf)"
| "times_fl (Fin a) NInf = (if a = 0 then NaN else if 0 < a then NInf else PInf)"
| "times_fl PInf (Fin b) = (if b = 0 then NaN else if 0 < b then PInf else NInf)"
| "times_fl NInf (Fin b) = (if b = 0 then NaN else if 0 < b then NInf else PInf)"
| "times_fl PInf PInf = PInf"
| "times_fl PInf NInf = NInf"
| "times_fl NInf PInf = NInf"
| "times_fl NInf NInf = PInf"

fun divide_fl :: "fl \<Rightarrow> fl \<Rightarrow> fl" where
  "divide_fl (Fin a) (Fin b) =
     (if b = 0 then (if a = 0 then NaN else if 0 < a then PInf else NInf) else Fin (a / b))"
| "divide_fl NaN _ = NaN"
| "divide_fl _ NaN = NaN"
| "divide_fl (Fin a) PInf = Fin 0"
| "divide_fl (Fin a) NInf = Fin 0"
| "divide_fl PInf (Fin b) = (if 0 \<le> b then PInf else NInf)"
| "divide_fl NInf (Fin b) = (if 0 \<le> b then NInf else PInf)"
| "divide_fl PInf PInf = NaN"
| "divide_fl PInf NInf = NaN"
| "divide_fl NInf PInf = NaN"
| "divide_fl NInf NInf = NaN"

definition inverse_fl :: "fl \<Rightarrow> fl" where
  "inverse_fl a = (Fin 1 div a)"

fun less_fl :: "fl \<Rightarrow> fl \<Rightarrow> bool" where
  "less_fl (Fin a) (Fin b) = (a < b)"
| "less_fl NaN _ = False"
| "less_fl _ NaN = False"
| "less_fl _ NInf = False"
| "less_fl PInf _ = False"
| "less_fl NInf _ = True"
| "less_fl _ PInf = True"

fun less_eq_fl :: "fl \<Rightarrow> fl \<Rightarrow> bool" where
  "less_eq_fl (Fin a) (Fin b) = (a \<le> b)"
| "less_eq_fl NaN _ = False"
| "less_eq_fl _ NaN = False"
| "less_eq_fl NInf _ = True"
| "less_eq_fl _ PInf = True"
| "less_eq_fl _ NInf = False"
| "less_eq_fl PInf _ = False"

fun abs_fl :: "fl \<Rightarrow> fl" where
  "abs_fl (Fin a) = Fin \<bar>a\<bar>"
| "abs_fl PInf = PInf"
| "abs_fl NInf = PInf"
| "abs_fl NaN = NaN"

instance ..

end

text \<open>\<^verbatim>\<open>std::sqrt\<close>: NaN on a negative argument.\<close>

fun fl_sqrt :: "fl \<Rightarrow> fl" where
  "fl_sqrt (Fin a) = (if a < 0 then NaN else Fin (sqrt a))"
| "fl_sqrt PInf = PInf"
| "fl_sqrt NInf = NaN"
| "fl_sqrt NaN = NaN"

fun is_nan :: "fl \<Rightarrow> bool" where
  "is_nan NaN = True"
| "is_nan _ = False"

text \<open>
  \<^verbatim>\<open>std::max(a, b)\<close> is \<^verbatim>\<open>(a < b) ? b : a\<close> and \<^verbatim>\<open>std::min(a, b)\<close> is \<^verbatim>\<open>(b < a) ? b : a\<close>;
  \<^verbatim>\<open>glm::max(x, y)\<close> is \<^verbatim>\<open>(x < y) ? y : x\<close> and \<^verbatim>\<open>glm::min(x, y)\<close> is \<^verbatim>\<open>(y < x) ? y : x\<close>;
  \<^verbatim>\<open>std::fmax\<close> and \<^verbatim>\<open>std::fmin\<close> return the other argument when one is NaN.
\<close>

definition std_max :: "fl \<Rightarrow> fl \<Rightarrow> fl" where
  "std_max a b = (if a < b then b else a)"

definition std_min :: "fl \<Rightarrow> fl \<Rightarrow> fl" where
  "std_min a b = (if b < a then b else a)"

definition glm_max :: "fl \<Rightarrow> fl \<Rightarrow> fl" where
  "glm_max a b = (if a < b then b else a)"

definition glm_min :: "fl \<Rightarrow> fl \<Rightarrow> fl" where
  "glm_min a b = (if b < a then b else a)"

definition std_fmax :: "fl \<Rightarrow> fl \<Rightarrow> fl" where
  "std_fmax a b = (if is_nan a then b else if is_nan b then a else if a < b then b else a)"

definition std_fmin :: "fl \<Rightarrow> fl \<Rightarrow> fl" where
  "std_fmin a b = (if is_nan a then b else if is_nan b then a else if b < a then b else a)"

text \<open>\<^verbatim>\<open>std::numeric_limits<double>::max()\<close>, the largest finite double.\<close>

definition DBL_MAX :: real where
  "DBL_MAX = 2 ^ 1024 - 2 ^ 971"

section \<open>Vectors (glm::vec3)\<close>

datatype vec3 = vec3 (vx: fl) (vy: fl) (vz: fl)

instantiation vec3 :: "{plus, minus, uminus, times}"
begin

definition plus_vec3 :: "vec3 \<Rightarrow> vec3 \<Rightarrow> vec3" where
  "plus_vec3 a b = vec3 (vx a + vx b) (vy a + vy b) (vz a + vz b)"

definition minus_vec3 :: "vec3 \<Rightarrow> vec3 \<Rightarrow> vec3" where
  "minus_vec3 a b = vec3 (vx a - vx b) (vy a - vy b) (vz a - vz b)"

definition uminus_vec3 :: "vec3 \<Rightarrow> vec3" where
  "uminus_vec3 a = vec3 (- vx a) (- vy a) (- vz a)"

definition times_vec3 :: "vec3 \<Rightarrow> vec3 \<Rightarrow> vec3" where
  "times_vec3 a b = vec3 (vx a * vx b) (vy a * vy b) (vz a * vz b)"

instance ..

end

text \<open>Scalar on the left, scalar on the right, division by a scalar, adding a scalar.\<close>

definition smul :: "fl \<Rightarrow> vec3 \<Rightarrow> vec3" where
  "smul s v = vec3 (s * vx v) (s * vy v) (s * vz v)"

definition vmuls :: "vec3 \<Rightarrow> fl \<Rightarrow> vec3" where
  "vmuls v s = vec3 (vx v * s) (vy v * s) (vz v * s)"

definition vdivs :: "vec3 \<Rightarrow> fl \<Rightarrow> vec3" where
  "vdivs v s = vec3 (vx v / s) (vy v / s) (vz v / s)"

definition vadds :: "vec3 \<Rightarrow> fl \<Rightarrow> vec3" where
  "vadds v s = vec3 (vx v + s) (vy v + s) (vz v + s)"

definition vsubs :: "vec3 \<Rightarrow> fl \<Rightarrow> vec3" where
  "vsubs v s = vec3 (vx v - s) (vy v - s) (vz v - s)"

definition dot :: "vec3 \<Rightarrow> vec3 \<Rightarrow> fl" where
  "dot a b = vx a * vx b + vy a * vy b + vz a * vz b"

definition cross :: "vec3 \<Rightarrow> vec3 \<Rightarrow> vec3" where
  "cross a b = vec3 (vy a * vz b - vy b * vz a)
                    (vz a * vx b - vz b * vx a)
                    (vx a * vy b - vx b * vy a)"

definition glm_length :: "vec3 \<Rightarrow> fl" where
  "glm_length v = fl_sqrt (dot v v)"

definition glm_normalize :: "vec3 \<Rightarrow> vec3" where
  "glm_normalize v = vmuls v (Fin 1 / fl_sqrt (dot v v))"

definition glm_min3 :: "vec3 \<Rightarrow> vec3 \<Rightarrow> vec3" where
  "glm_min3 a b = vec3 (glm_min (vx a) (vx b)) (glm_min (vy a) (vy b)) (glm_min (vz a) (vz b))"

definition glm_max3 :: "vec3 \<Rightarrow> vec3 \<Rightarrow> vec3" where
  "glm_max3 a b = vec3 (glm_max (vx a) (vx b)) (glm_max (vy a) (vy b)) (glm_max (vz a) (vz b))"


text \<open>A vector of three finite components.\<close>

definition fvec :: "real \<Rightarrow> real \<Rightarrow> real \<Rightarrow> vec3" where
  "fvec a b c = vec3 (Fin a) (Fin b) (Fin c)"

definition nan_free :: "vec3 \<Rightarrow> bool" where
  "nan_free v = (\<not> is_nan (vx v) \<and> \<not> is_nan (vy v) \<and> \<not> is_nan (vz v))"

section \<open>Rounding\<close>

text \<open>
  A binary floating-point format has a precision \<open>p\<close> and the exponents \<open>emin\<close> to \<open>emax\<close>
  of its normal numbers. \<open>binade\<close> finds the exponent of a positive number, not below
  \<open>emin\<close> (below it the numbers are subnormal and keep the spacing of \<open>emin\<close>).
\<close>

fun binade_below :: "nat \<Rightarrow> int \<Rightarrow> real \<Rightarrow> int" where
  "binade_below 0 e a = e"
| "binade_below (Suc k) e a = (if 2 powi e \<le> a then e else binade_below k (e - 1) a)"

definition binade :: "int \<Rightarrow> int \<Rightarrow> real \<Rightarrow> int" where
  "binade emin emax a = binade_below (nat (emax - emin)) emax a"

text \<open>Rounding to the nearest integer, a tie to the even one.\<close>

definition round_half_even :: "real \<Rightarrow> int" where
  "round_half_even q =
     (if q - of_int \<lfloor>q\<rfloor> < 1 / 2 then \<lfloor>q\<rfloor>
      else if 1 / 2 < q - of_int \<lfloor>q\<rfloor> then \<lfloor>q\<rfloor> + 1
      else if even \<lfloor>q\<rfloor> then \<lfloor>q\<rfloor> else \<lfloor>q\<rfloor> + 1)"

definition largest_finite :: "nat \<Rightarrow> int \<Rightarrow> real" where
  "largest_finite p emax = (2 - 2 powi (1 - int p)) * 2 powi emax"

text \<open>
  Rounding of a real number into the format, to nearest with ties to even: the number
  is rounded to a multiple of the spacing of its binade, and a result beyond the largest
  finite number is an infinity.
\<close>

definition round_to :: "nat \<Rightarrow> int \<Rightarrow> int \<Rightarrow> real \<Rightarrow> fl" where
  "round_to p emin emax x =
     (let spacing = 2 powi (binade emin emax \<bar>x\<bar> - int p + 1);
          y = of_int (round_half_even (x / spacing)) * spacing
      in if largest_finite p emax < y then PInf
         else if y < - largest_finite p emax then NInf
         else Fin y)"

text \<open>\<^verbatim>\<open>float\<close> is binary32 and \<^verbatim>\<open>double\<close> is binary64.\<close>

definition binary32 :: "real \<Rightarrow> fl" where
  "binary32 = round_to 24 (- 126) 127"


text \<open>
  An operation of the format rounds the exact result when it is finite; the special
  values of the exact operation stay.
\<close>

fun rounded :: "(real \<Rightarrow> fl) \<Rightarrow> fl \<Rightarrow> fl" where
  "rounded r (Fin x) = r x"
| "rounded r PInf = PInf"
| "rounded r NInf = NInf"
| "rounded r NaN = NaN"

text \<open>The operations of \<^verbatim>\<open>float\<close>, and the conversion of a \<^verbatim>\<open>double\<close> to \<^verbatim>\<open>float\<close>.\<close>

definition add_float :: "fl \<Rightarrow> fl \<Rightarrow> fl" where
  "add_float a b = rounded binary32 (a + b)"

definition sub_float :: "fl \<Rightarrow> fl \<Rightarrow> fl" where
  "sub_float a b = rounded binary32 (a - b)"

definition mul_float :: "fl \<Rightarrow> fl \<Rightarrow> fl" where
  "mul_float a b = rounded binary32 (a * b)"

definition div_float :: "fl \<Rightarrow> fl \<Rightarrow> fl" where
  "div_float a b = rounded binary32 (a / b)"









definition adds_vec3 :: "vec3 \<Rightarrow> fl \<Rightarrow> vec3" where
  "adds_vec3 v s = vec3 (add_float (vx v) s) (add_float (vy v) s) (add_float (vz v) s)"

definition subs_vec3 :: "vec3 \<Rightarrow> fl \<Rightarrow> vec3" where
  "subs_vec3 v s = vec3 (sub_float (vx v) s) (sub_float (vy v) s) (sub_float (vz v) s)"




section \<open>Rays (Ray.h)\<close>

record Ray =
  m_origin :: vec3
  m_direction :: vec3
  direction_reciprocal :: vec3
  t_min :: fl
  t_max :: fl

text \<open>The constructor \<^verbatim>\<open>Ray(origin, direction)\<close> and \<^verbatim>\<open>operator()(t)\<close>.\<close>

definition Ray_ctor :: "vec3 \<Rightarrow> vec3 \<Rightarrow> Ray" where
  "Ray_ctor origin direction =
     \<lparr> m_origin = origin, m_direction = direction,
       direction_reciprocal =
         vec3 (div_float (Fin 1) (vx direction)) (div_float (Fin 1) (vy direction))
              (div_float (Fin 1) (vz direction)),
       t_min = Fin 0, t_max = Fin DBL_MAX \<rparr>"


section \<open>Axis-aligned bounding boxes (BoundingVolume.h)\<close>

datatype Axis = X_axis | Y_axis | Z_axis

record AABB_3D =
  min_slab_values :: vec3
  max_slab_values :: vec3

text \<open>
  The three constructors. The default one stores \<^verbatim>\<open>numeric_limits<double>::max()\<close> and
  \<^verbatim>\<open>lowest()\<close> into \<^verbatim>\<open>float\<close> components, which, as its comment says, sets them to
  inf and -inf.
\<close>

definition AABB_3D_empty :: AABB_3D where
  "AABB_3D_empty = \<lparr> min_slab_values = vec3 PInf PInf PInf,
                     max_slab_values = vec3 NInf NInf NInf \<rparr>"

definition AABB_3D_point :: "vec3 \<Rightarrow> AABB_3D" where
  "AABB_3D_point point = \<lparr> min_slab_values = point, max_slab_values = point \<rparr>"

definition AABB_3D_diag :: "vec3 \<Rightarrow> vec3 \<Rightarrow> AABB_3D" where
  "AABB_3D_diag point_1 point_2 =
     \<lparr> min_slab_values = vec3 (std_fmin (vx point_1) (vx point_2))
                              (std_fmin (vy point_1) (vy point_2))
                              (std_fmin (vz point_1) (vz point_2)),
       max_slab_values = vec3 (std_fmax (vx point_1) (vx point_2))
                              (std_fmax (vy point_1) (vy point_2))
                              (std_fmax (vz point_1) (vz point_2)) \<rparr>"

definition contains_point :: "AABB_3D \<Rightarrow> vec3 \<Rightarrow> bool" where
  "contains_point b point =
     ((vx (min_slab_values b) \<le> vx point) \<and> (vx point \<le> vx (max_slab_values b))
      \<and>
      (vy (min_slab_values b) \<le> vy point) \<and> (vy point \<le> vy (max_slab_values b))
      \<and>
      (vz (min_slab_values b) \<le> vz point) \<and> (vz point \<le> vz (max_slab_values b)))"

definition intersects_with_3D_AABB :: "AABB_3D \<Rightarrow> AABB_3D \<Rightarrow> bool" where
  "intersects_with_3D_AABB b box =
     ((vx (max_slab_values b) \<ge> vx (min_slab_values box)) \<and> (vx (min_slab_values b) \<le> vx (max_slab_values box))
      \<and>
      (vy (max_slab_values b) \<ge> vy (min_slab_values box)) \<and> (vy (min_slab_values b) \<le> vy (max_slab_values box))
      \<and>
      (vz (max_slab_values b) \<ge> vz (min_slab_values box)) \<and> (vz (min_slab_values b) \<le> vz (max_slab_values box)))"

definition center_vector :: "AABB_3D \<Rightarrow> vec3" where
  "center_vector b = smul (Fin 0.5) (max_slab_values b + min_slab_values b)"

definition diagonal_vector :: "AABB_3D \<Rightarrow> vec3" where
  "diagonal_vector b = max_slab_values b - min_slab_values b"

definition longest_axis :: "AABB_3D \<Rightarrow> Axis" where
  "longest_axis b =
     (let diagonal = diagonal_vector b in
      if (vx diagonal > vy diagonal) \<and> (vx diagonal > vz diagonal) then X_axis
      else if vy diagonal > vz diagonal then Y_axis
      else Z_axis)"

definition Union_with_point :: "AABB_3D \<Rightarrow> vec3 \<Rightarrow> AABB_3D" where
  "Union_with_point b point =
     \<lparr> min_slab_values = glm_min3 (min_slab_values b) point,
       max_slab_values = glm_max3 (max_slab_values b) point \<rparr>"

definition Union_with_3D_AABB :: "AABB_3D \<Rightarrow> AABB_3D \<Rightarrow> AABB_3D" where
  "Union_with_3D_AABB b box =
     \<lparr> min_slab_values = glm_min3 (min_slab_values b) (min_slab_values box),
       max_slab_values = glm_max3 (max_slab_values b) (max_slab_values box) \<rparr>"

text \<open>The sign flags as \<^verbatim>\<open>traverse_BVH_from_node\<close> computes them.\<close>

definition ray_direction_is_negative_of :: "Ray \<Rightarrow> bool \<times> bool \<times> bool" where
  "ray_direction_is_negative_of ray =
     (vx (m_direction ray) < Fin 0, vy (m_direction ray) < Fin 0, vz (m_direction ray) < Fin 0)"

section \<open>Properties of bounding boxes\<close>

definition nan_free_box :: "AABB_3D \<Rightarrow> bool" where
  "nan_free_box b = (nan_free (min_slab_values b) \<and> nan_free (max_slab_values b))"

text \<open>The box of everything: unbounded on the three axes.\<close>

definition AABB_3D_everything :: AABB_3D where
  "AABB_3D_everything = \<lparr> min_slab_values = vec3 NInf NInf NInf,
                          max_slab_values = vec3 PInf PInf PInf \<rparr>"

definition encloses :: "AABB_3D \<Rightarrow> AABB_3D \<Rightarrow> bool" where
  "encloses u a =
     (vx (min_slab_values u) \<le> vx (min_slab_values a) \<and> vx (max_slab_values a) \<le> vx (max_slab_values u) \<and>
      vy (min_slab_values u) \<le> vy (min_slab_values a) \<and> vy (max_slab_values a) \<le> vy (max_slab_values u) \<and>
      vz (min_slab_values u) \<le> vz (min_slab_values a) \<and> vz (max_slab_values a) \<le> vz (max_slab_values u))"

fun axis_component :: "Axis \<Rightarrow> vec3 \<Rightarrow> fl" where
  "axis_component X_axis v = vx v"
| "axis_component Y_axis v = vy v"
| "axis_component Z_axis v = vz v"

text \<open>Vectors of real numbers, to state geometry without the special values.\<close>

type_synonym real3 = "real \<times> real \<times> real"

fun of_real3 :: "real3 \<Rightarrow> vec3" where
  "of_real3 (a, b, c) = vec3 (Fin a) (Fin b) (Fin c)"


fun r3_sub :: "real3 \<Rightarrow> real3 \<Rightarrow> real3" where
  "r3_sub (a, b, c) (d, e, f) = (a - d, b - e, c - f)"


fun r3_dot :: "real3 \<Rightarrow> real3 \<Rightarrow> real" where
  "r3_dot (a, b, c) (d, e, f) = a * d + b * e + c * f"

fun r3_cross :: "real3 \<Rightarrow> real3 \<Rightarrow> real3" where
  "r3_cross (a, b, c) (d, e, f) = (b * f - e * c, c * d - f * a, a * e - d * b)"






section \<open>Intersection records (IntersectionRecord.h)\<close>

text \<open>
  The record of an intersection. \<open>'e\<close> is the type of pointers to entities and \<open>'m\<close>
  the type of pointers to materials; a null pointer is \<open>None\<close>.
\<close>

record ('e, 'm) IntersectionRecord =
  has_intersection :: bool
  t :: fl
  location :: vec3
  surface_normal :: vec3
  hitted_entity :: "'e option"
  hitted_entity_material :: "'m option"


section \<open>The bounding volume hierarchy (BVH.h)\<close>

text \<open>
  A \<^verbatim>\<open>BVH_Node\<close> has two child pointers, a box and an entity pointer. \<^verbatim>\<open>build_BVH\<close>, the
  only producer of nodes, makes two shapes: a leaf (both children null, the entity set)
  and an inner node (both children set, the entity null). \<open>'e\<close> is the type of pointers
  to entities. The virtual methods \<^verbatim>\<open>Get3DAABB\<close> and \<^verbatim>\<open>GetIntersectionRecord\<close> of the
  entities are passed as functions of the entity pointer.
\<close>

datatype 'e BVH_Node =
    Leaf_Node (entity: 'e) (bounding_volume: AABB_3D)
  | Inner_Node (left: "'e BVH_Node") (right: "'e BVH_Node") (bounding_volume: AABB_3D)

text \<open>The loop of \<^verbatim>\<open>build_BVH\<close> over the centroids, starting from the empty box.\<close>

definition AABB_of_all_centroids :: "('e \<Rightarrow> AABB_3D) \<Rightarrow> 'e list \<Rightarrow> AABB_3D" where
  "AABB_of_all_centroids Get3DAABB entities =
     foldl (\<lambda>box e. Union_with_point box (center_vector (Get3DAABB e))) AABB_3D_empty entities"

text \<open>The comparator of the \<^verbatim>\<open>std::sort\<close> call chosen by the \<^verbatim>\<open>switch\<close> on the axis.\<close>

definition centroid_less :: "('e \<Rightarrow> AABB_3D) \<Rightarrow> Axis \<Rightarrow> 'e \<Rightarrow> 'e \<Rightarrow> bool" where
  "centroid_less Get3DAABB axis a b =
     (axis_component axis (center_vector (Get3DAABB a))
        < axis_component axis (center_vector (Get3DAABB b)))"

text \<open>The entities at the leaves of a tree, left to right, and the numbers of nodes.\<close>

fun leaves :: "'e BVH_Node \<Rightarrow> 'e list" where
  "leaves (Leaf_Node e box) = [e]"
| "leaves (Inner_Node l r box) = leaves l @ leaves r"

fun count_leaves :: "'e BVH_Node \<Rightarrow> nat" where
  "count_leaves (Leaf_Node e box) = 1"
| "count_leaves (Inner_Node l r box) = count_leaves l + count_leaves r"

fun count_inner :: "'e BVH_Node \<Rightarrow> nat" where
  "count_inner (Leaf_Node e box) = 0"
| "count_inner (Inner_Node l r box) = 1 + count_inner l + count_inner r"

text \<open>
  A stable sort, as the specification has it: insertion sort that keeps the order of
  elements neither of which compares less than the other.
\<close>

fun stable_insert :: "('e \<Rightarrow> 'e \<Rightarrow> bool) \<Rightarrow> 'e \<Rightarrow> 'e list \<Rightarrow> 'e list" where
  "stable_insert cmp x [] = [x]"
| "stable_insert cmp x (y # ys) =
     (if cmp y x then y # stable_insert cmp x ys else x # y # ys)"

fun stable_sort :: "('e \<Rightarrow> 'e \<Rightarrow> bool) \<Rightarrow> 'e list \<Rightarrow> 'e list" where
  "stable_sort cmp [] = []"
| "stable_sort cmp (x # xs) = stable_insert cmp x (stable_sort cmp xs)"

fun is_fin :: "fl \<Rightarrow> bool" where
  "is_fin (Fin a) = True"
| "is_fin PInf = False"
| "is_fin NInf = False"
| "is_fin NaN = False"

definition finite_vec :: "vec3 \<Rightarrow> bool" where
  "finite_vec v = (is_fin (vx v) \<and> is_fin (vy v) \<and> is_fin (vz v))"

definition finite_box :: "AABB_3D \<Rightarrow> bool" where
  "finite_box b = (finite_vec (min_slab_values b) \<and> finite_vec (max_slab_values b))"

section \<open>Materials and the path integrator (WhittedMaterial.h, Renderer.h, Renderer.cpp)\<close>

text \<open>The constants \<^verbatim>\<open>PI\<close>, \<^verbatim>\<open>INTERSECTION_CORRECTION\<close> and \<^verbatim>\<open>RR_survival_probability\<close>.\<close>

definition PI :: real where
  "PI = 3.141592653589793"

definition INTERSECTION_CORRECTION :: real where
  "INTERSECTION_CORRECTION = 0.00001"

definition RR_survival_probability :: real where
  "RR_survival_probability = 0.8"

text \<open>\<^verbatim>\<open>std::cos\<close>, \<^verbatim>\<open>std::sin\<close> and \<^verbatim>\<open>std::fabs\<close>.\<close>

fun fl_cos :: "fl \<Rightarrow> fl" where
  "fl_cos (Fin a) = Fin (cos a)"
| "fl_cos PInf = NaN"
| "fl_cos NInf = NaN"
| "fl_cos NaN = NaN"

fun fl_sin :: "fl \<Rightarrow> fl" where
  "fl_sin (Fin a) = Fin (sin a)"
| "fl_sin PInf = NaN"
| "fl_sin NInf = NaN"
| "fl_sin NaN = NaN"

datatype MaterialNature = Diffuse

record WhittedMaterial =
  m_material_nature :: MaterialNature
  refractive_index :: fl
  diffuse_coefficient :: vec3
  m_diffuse_color :: vec3
  specular_size_factor :: fl
  m_emission :: vec3
  emitting :: bool

text \<open>
  The constructor sets the nature, the colour, the emission and the \<^verbatim>\<open>emitting\<close> flag, and
  leaves \<^verbatim>\<open>diffuse_coefficient\<close> and \<^verbatim>\<open>specular_size_factor\<close> as they are in the fresh
  memory; these two are passed in.
\<close>

definition WhittedMaterial_ctor ::
  "MaterialNature \<Rightarrow> vec3 \<Rightarrow> vec3 \<Rightarrow> vec3 \<Rightarrow> fl \<Rightarrow> WhittedMaterial" where
  "WhittedMaterial_ctor material_nature emission_value diffuse_color
      fresh_diffuse_coefficient fresh_specular_size_factor =
     \<lparr> m_material_nature = material_nature,
       refractive_index = Fin 1,
       diffuse_coefficient = fresh_diffuse_coefficient,
       m_diffuse_color = diffuse_color,
       specular_size_factor = fresh_specular_size_factor,
       m_emission = emission_value,
       emitting = (if glm_length emission_value > Fin 0.00001 then True else False) \<rparr>"

definition PDF_at_the_sample :: "WhittedMaterial \<Rightarrow> vec3 \<Rightarrow> vec3 \<Rightarrow> vec3 \<Rightarrow> fl" where
  "PDF_at_the_sample m W_out W_in shading_point_normal =
     (if True then Fin 1 / (Fin 2 * Fin PI) else Fin 0)"

definition BRDF :: "WhittedMaterial \<Rightarrow> vec3 \<Rightarrow> vec3 \<Rightarrow> vec3 \<Rightarrow> vec3" where
  "BRDF m W_out W_in shading_point_normal =
     (if dot W_in shading_point_normal \<ge> Fin 0
      then vdivs (diffuse_coefficient m) (Fin PI)
      else vec3 (Fin 0) (Fin 0) (Fin 0))"

text \<open>
  \<^verbatim>\<open>WhittedMaterial::Sampling\<close>; the values of its two calls of \<^verbatim>\<open>get_random_float_0_1\<close>
  are the last two arguments.
\<close>

definition WhittedMaterial_Sampling :: "WhittedMaterial \<Rightarrow> vec3 \<Rightarrow> vec3 \<Rightarrow> fl \<Rightarrow> fl \<Rightarrow> vec3" where
  "WhittedMaterial_Sampling m W_out shading_point_normal random_1 random_2 =
     (let W_in_local_z = random_1;
          radius_on_xy_plane = fl_sqrt (Fin 1 - W_in_local_z * W_in_local_z);
          random_phi = Fin 2 * Fin PI * random_2;
          W_in_local_x = radius_on_xy_plane * fl_cos random_phi;
          W_in_local_y = radius_on_xy_plane * fl_sin random_phi;
          Y = (if \<bar>vx shading_point_normal\<bar> > \<bar>vy shading_point_normal\<bar>
               then glm_normalize (vec3 (vz shading_point_normal) (Fin 0) (- (vx shading_point_normal)))
               else glm_normalize (vec3 (Fin 0) (vz shading_point_normal) (- (vy shading_point_normal))));
          X = cross Y shading_point_normal
      in smul W_in_local_x X + smul W_in_local_y Y + smul W_in_local_z shading_point_normal)"

definition IsEmitting :: "WhittedMaterial \<Rightarrow> bool" where
  "IsEmitting m = emitting m"

definition GetEmission :: "WhittedMaterial \<Rightarrow> vec3" where
  "GetEmission m = m_emission m"

text \<open>
  Modelled from the spec: \<^verbatim>\<open>IntersectionRecord.h\<close> of the denoising renderer is not among
  the sources. Its record is the intersection record with two more fields, which
  \<^verbatim>\<open>Renderer.cpp\<close> and \<^verbatim>\<open>TriangleMesh.h\<close> read and write: the emission of a light sample and
  the identity of the primitive hit. The default record is "no hit" with the sentinel
  \<open>t\<close>; the two new fields are taken as zero emission and identity \<open>-1\<close>.
\<close>

record ('e, 'm) PT_IntersectionRecord = "('e, 'm) IntersectionRecord" +
  emission :: vec3
  primitive_id :: int

definition PT_IntersectionRecord_default :: "('e, 'm) PT_IntersectionRecord" where
  "PT_IntersectionRecord_default =
     \<lparr> has_intersection = False, t = Fin DBL_MAX,
       location = vec3 (Fin 0) (Fin 0) (Fin 0), surface_normal = vec3 (Fin 0) (Fin 0) (Fin 0),
       hitted_entity = None, hitted_entity_material = None,
       emission = vec3 (Fin 0) (Fin 0) (Fin 0), primitive_id = - 1 \<rparr>"

text \<open>
  What \<^verbatim>\<open>shading\<close> uses of the renderer: the list of entities, their virtual methods
  \<^verbatim>\<open>IsEmissive\<close> and \<^verbatim>\<open>Sampling\<close>, and \<^verbatim>\<open>ray_BVH_intersection_record\<close>, the traversal of the
  scene's BVH. \<^verbatim>\<open>Sampling\<close> of an entity draws random numbers; \<open>'r\<close> is the type of what it
  draws in one call. It updates the sample record passed to it and writes the PDF.
\<close>

record ('e, 'r) Renderer =
  entities :: "'e list"
  Entity_IsEmissive :: "'e \<Rightarrow> bool"
  Entity_Sampling :: "'e \<Rightarrow> 'r \<Rightarrow> ('e, WhittedMaterial) PT_IntersectionRecord
                        \<Rightarrow> ('e, WhittedMaterial) PT_IntersectionRecord \<times> fl"
  ray_BVH_intersection_record :: "Ray \<Rightarrow> ('e, WhittedMaterial) PT_IntersectionRecord"

text \<open>
  \<^verbatim>\<open>SamplingAreaLight\<close>: the first emissive entity samples itself, the loop breaks. The PDF
  is an uninitialised local of the caller (\<open>None\<close>) that stays so when no entity is
  emissive.
\<close>

definition SamplingAreaLight ::
  "('e, 'r) Renderer \<Rightarrow> 'r \<Rightarrow> ('e, WhittedMaterial) PT_IntersectionRecord \<Rightarrow> fl option
     \<Rightarrow> ('e, WhittedMaterial) PT_IntersectionRecord \<times> fl option" where
  "SamplingAreaLight renderer random_light sample PDF =
     (case find (Entity_IsEmissive renderer) (entities renderer) of
        None \<Rightarrow> (sample, PDF)
      | Some e \<Rightarrow> (let (new_sample, new_PDF) = Entity_Sampling renderer e random_light sample
                  in (new_sample, Some new_PDF)))"

text \<open>
  The random numbers one call of \<^verbatim>\<open>shading\<close> draws: what the light's \<^verbatim>\<open>Sampling\<close> draws,
  the number compared with the survival probability, and the two numbers of the
  material's \<^verbatim>\<open>Sampling\<close>.
\<close>

record 'r draw =
  light_draw :: 'r
  roulette_draw :: fl
  hemisphere_draw_1 :: fl
  hemisphere_draw_2 :: fl

text \<open>The locals \<^verbatim>\<open>shading_point_normal\<close> and \<^verbatim>\<open>shading_point\<close> of \<^verbatim>\<open>shading\<close>.\<close>

definition shading_point_normal_of :: "('e, 'm) PT_IntersectionRecord \<Rightarrow> vec3 \<Rightarrow> vec3" where
  "shading_point_normal_of record W_out =
     (if dot (surface_normal record) W_out < Fin 0 then - (surface_normal record)
      else surface_normal record)"

definition shading_point_of :: "('e, 'm) PT_IntersectionRecord \<Rightarrow> vec3 \<Rightarrow> vec3" where
  "shading_point_of record W_out =
     location record + vmuls (shading_point_normal_of record W_out) (Fin INTERSECTION_CORRECTION)"

text \<open>
  The part "Direct Illumination" of \<^verbatim>\<open>shading\<close>: the value of \<^verbatim>\<open>radiance_direct\<close> after it,
  or \<open>None\<close> when the uninitialised PDF is read.
\<close>

definition radiance_direct_of ::
  "('e, 'r) Renderer \<Rightarrow> 'r draw \<Rightarrow> WhittedMaterial \<Rightarrow> ('e, WhittedMaterial) PT_IntersectionRecord
     \<Rightarrow> vec3 \<Rightarrow> vec3 option" where
  "radiance_direct_of renderer d m record W_out =
     (let shading_point_normal = shading_point_normal_of record W_out;
          shading_point = shading_point_of record W_out;
          (arealight_sample, arealight_sample_PDF) =
             SamplingAreaLight renderer (light_draw d) PT_IntersectionRecord_default None;
          sample_location = location arealight_sample;
          shading_point_to_sample = sample_location - shading_point;
          W_in_light_source = glm_normalize shading_point_to_sample;
          arealight_sample_normal =
            (if dot (surface_normal arealight_sample) (- W_in_light_source) < Fin 0
             then - (surface_normal arealight_sample) else surface_normal arealight_sample);
          potential_occlusion =
            ray_BVH_intersection_record renderer (Ray_ctor shading_point W_in_light_source)
      in if glm_length shading_point_to_sample < t potential_occlusion + Fin 0.01
         then (case arealight_sample_PDF of
                 None \<Rightarrow> None
               | Some pdf \<Rightarrow>
                   Some (vdivs
                          (vdivs
                            (vmuls
                              (vmuls (emission arealight_sample
                                        * BRDF m W_out W_in_light_source shading_point_normal)
                                 (dot W_in_light_source shading_point_normal))
                              (dot (- W_in_light_source) arealight_sample_normal))
                            (dot shading_point_to_sample shading_point_to_sample))
                          pdf))
         else Some (vec3 (Fin 0) (Fin 0) (Fin 0)))"

text \<open>
  The result of \<^verbatim>\<open>shading\<close>: the radiance returned, or the reason why there is none: a
  null material pointer is dereferenced, the uninitialised PDF is read, or the list of
  random draws is used up before the path ends.
\<close>

datatype shading_result =
    Radiance vec3
  | Null_material_pointer
  | Uninitialised_PDF
  | Out_of_draws

text \<open>
  \<^verbatim>\<open>Renderer::shading\<close>. Every call that gets past the emission test takes the next element
  of the list of draws; the recursive call takes the rest.
\<close>

fun shading ::
  "('e, 'r) Renderer \<Rightarrow> 'r draw list \<Rightarrow> ('e, WhittedMaterial) PT_IntersectionRecord \<Rightarrow> vec3
     \<Rightarrow> shading_result" where
  "shading renderer [] record W_out =
     (case hitted_entity_material record of
        None \<Rightarrow> Null_material_pointer
      | Some m \<Rightarrow> if IsEmitting m then Radiance (GetEmission m) else Out_of_draws)"
| "shading renderer (d # ds) record W_out =
     (case hitted_entity_material record of
        None \<Rightarrow> Null_material_pointer
      | Some m \<Rightarrow>
          if IsEmitting m then Radiance (GetEmission m)
          else
            (let shading_point_normal = shading_point_normal_of record W_out;
                 shading_point = shading_point_of record W_out
             in case radiance_direct_of renderer d m record W_out of
                  None \<Rightarrow> Uninitialised_PDF
                | Some radiance_direct \<Rightarrow>
                    if roulette_draw d < Fin RR_survival_probability
                    then
                      (let W_in = glm_normalize
                                    (WhittedMaterial_Sampling m W_out shading_point_normal
                                       (hemisphere_draw_1 d) (hemisphere_draw_2 d));
                           PDF = PDF_at_the_sample m W_out W_in shading_point_normal;
                           deeper_ray_record =
                             ray_BVH_intersection_record renderer (Ray_ctor shading_point W_in)
                       in if has_intersection deeper_ray_record
                          then (case hitted_entity_material deeper_ray_record of
                                  None \<Rightarrow> Null_material_pointer
                                | Some deeper_m \<Rightarrow>
                                    if \<not> IsEmitting deeper_m
                                    then (case shading renderer ds deeper_ray_record (- W_in) of
                                            Radiance deeper_radiance \<Rightarrow>
                                              Radiance
                                                (radiance_direct
                                                 + vdivs
                                                     (vdivs
                                                        (vmuls
                                                           (deeper_radiance
                                                              * BRDF m W_out W_in shading_point_normal)
                                                           (dot W_in shading_point_normal))
                                                        PDF)
                                                     (Fin RR_survival_probability))
                                          | failure \<Rightarrow> failure)
                                    else Radiance (radiance_direct + vec3 (Fin 0) (Fin 0) (Fin 0)))
                          else Radiance (radiance_direct + vec3 (Fin 0) (Fin 0) (Fin 0)))
                    else Radiance (radiance_direct + vec3 (Fin 0) (Fin 0) (Fin 0))))"

section \<open>A lamp above a floor\<close>

text \<open>
  A white diffuse material, a hit on a floor at the origin facing up, and a renderer
  with entity \<open>0\<close> for the floor and the emissive entity \<open>1\<close> for the lamp. The lamp's
  \<^verbatim>\<open>Sampling\<close> puts the sample where its draw says, facing down, with unit emission and
  PDF \<open>1\<close>. The rays are answered by the function given.
\<close>

definition white_material :: WhittedMaterial where
  "white_material =
     \<lparr> m_material_nature = Diffuse, refractive_index = Fin 1,
       diffuse_coefficient = fvec 1 1 1, m_diffuse_color = fvec 1 1 1,
       specular_size_factor = Fin 0, m_emission = fvec 0 0 0, emitting = False \<rparr>"

definition floor_record :: "(nat, WhittedMaterial) PT_IntersectionRecord" where
  "floor_record =
     \<lparr> has_intersection = True, t = Fin 1,
       location = fvec 0 0 0, surface_normal = fvec 0 0 1,
       hitted_entity = Some 0, hitted_entity_material = Some white_material,
       emission = fvec 0 0 0, primitive_id = 0 \<rparr>"

definition lamp_scene ::
  "(Ray \<Rightarrow> (nat, WhittedMaterial) PT_IntersectionRecord) \<Rightarrow> (nat, vec3) Renderer" where
  "lamp_scene answer =
     \<lparr> entities = [0, 1],
       Entity_IsEmissive = (\<lambda>e. e = 1),
       Entity_Sampling = (\<lambda>e r s. (s\<lparr> location := r, surface_normal := fvec 0 0 (- 1),
                                         emission := fvec 1 1 1 \<rparr>, Fin 1)),
       ray_BVH_intersection_record = answer \<rparr>"





definition lamp_sample :: "vec3 \<Rightarrow> (nat, WhittedMaterial) PT_IntersectionRecord" where
  "lamp_sample r =
     PT_IntersectionRecord_default
       \<lparr> location := r, surface_normal := fvec 0 0 (- 1), emission := fvec 1 1 1 \<rparr>"

section \<open>A floor under a ceiling\<close>

text \<open>
  A hit on a ceiling facing down, two units above the floor. In the scene, a ray that
  starts below height \<open>1\<close> hits the ceiling and any other ray hits nothing. The first
  call of \<^verbatim>\<open>shading\<close> wins the roulette and samples the direction straight up; the
  second, at the ceiling, samples the lamp one unit below and loses the roulette.
\<close>

definition ceiling_record :: "(nat, WhittedMaterial) PT_IntersectionRecord" where
  "ceiling_record =
     \<lparr> has_intersection = True, t = Fin 2,
       location = fvec 0 0 2.00001, surface_normal = fvec 0 0 (- 1),
       hitted_entity = Some 0, hitted_entity_material = Some white_material,
       emission = fvec 0 0 0, primitive_id = 1 \<rparr>"

definition two_bounce_scene :: "(nat, vec3) Renderer" where
  "two_bounce_scene =
     lamp_scene (\<lambda>ray. if vz (m_origin ray) < Fin 1 then ceiling_record
                        else PT_IntersectionRecord_default)"

definition bounce_draw :: "vec3 draw" where
  "bounce_draw =
     \<lparr> light_draw = fvec 0 0 1.00001, roulette_draw = Fin 0.5,
       hemisphere_draw_1 = Fin 1, hemisphere_draw_2 = Fin 0 \<rparr>"

definition ceiling_draw :: "vec3 draw" where
  "ceiling_draw =
     \<lparr> light_draw = fvec 0 0 1, roulette_draw = Fin 0.9,
       hemisphere_draw_1 = Fin 1, hemisphere_draw_2 = Fin 0 \<rparr>"

text \<open>A hit on the lamp itself.\<close>

definition lamp_material :: WhittedMaterial where
  "lamp_material =
     \<lparr> m_material_nature = Diffuse, refractive_index = Fin 1,
       diffuse_coefficient = fvec 0.65 0.65 0.65, m_diffuse_color = fvec 0 0 0,
       specular_size_factor = Fin 0, m_emission = fvec 47.8 38.6 31.1, emitting = True \<rparr>"

definition lamp_record :: "(nat, WhittedMaterial) PT_IntersectionRecord" where
  "lamp_record =
     \<lparr> has_intersection = True, t = Fin 1,
       location = fvec 0 0 1, surface_normal = fvec 0 0 (- 1),
       hitted_entity = Some 1, hitted_entity_material = Some lamp_material,
       emission = fvec 0 0 0, primitive_id = 2 \<rparr>"

section \<open>Frame buffers and the temporal filter (Denoiser.h)\<close>






















text \<open>
  The statistics of a list of numbers that the clamp is compared with: the mean, the
  root of the mean squared distance from a given number, and the standard deviation,
  the root of the mean squared distance from the mean.
\<close>

definition window_mean :: "real list \<Rightarrow> real" where
  "window_mean cs = sum_list cs / real (length cs)"

definition window_spread :: "real \<Rightarrow> real list \<Rightarrow> real" where
  "window_spread c cs = sqrt (sum_list (map (\<lambda>a. (c - a)\<^sup>2) cs) / real (length cs))"

definition window_stddev :: "real list \<Rightarrow> real" where
  "window_stddev cs = window_spread (window_mean cs) cs"




section \<open>A frame of four pixels in a row\<close>







section \<open>The slab test (BoundingVolume.h)\<close>

text \<open>
  The slab test. The reciprocal of the direction and the three sign flags are passed in
  by the caller, as in the source. All the arithmetic is in \<^verbatim>\<open>float\<close>.
\<close>

definition intersects_with_ray :: "AABB_3D \<Rightarrow> Ray \<Rightarrow> vec3 \<Rightarrow> bool \<times> bool \<times> bool \<Rightarrow> bool" where
  "intersects_with_ray b ray ray_direction_reciprocal ray_direction_is_negative =
     (let t_in_x = mul_float (sub_float (vx (min_slab_values b)) (vx (m_origin ray)))
                             (vx ray_direction_reciprocal);
          t_in_y = mul_float (sub_float (vy (min_slab_values b)) (vy (m_origin ray)))
                             (vy ray_direction_reciprocal);
          t_in_z = mul_float (sub_float (vz (min_slab_values b)) (vz (m_origin ray)))
                             (vz ray_direction_reciprocal);
          t_out_x = mul_float (sub_float (vx (max_slab_values b)) (vx (m_origin ray)))
                              (vx ray_direction_reciprocal);
          t_out_y = mul_float (sub_float (vy (max_slab_values b)) (vy (m_origin ray)))
                              (vy ray_direction_reciprocal);
          t_out_z = mul_float (sub_float (vz (max_slab_values b)) (vz (m_origin ray)))
                              (vz ray_direction_reciprocal);
          (t_in_x, t_out_x) =
            (if fst ray_direction_is_negative then (t_out_x, t_in_x) else (t_in_x, t_out_x));
          (t_in_y, t_out_y) =
            (if fst (snd ray_direction_is_negative) then (t_out_y, t_in_y) else (t_in_y, t_out_y));
          (t_in_z, t_out_z) =
            (if snd (snd ray_direction_is_negative) then (t_out_z, t_in_z) else (t_in_z, t_out_z));
          t_in = std_max t_in_x (std_max t_in_y t_in_z);
          t_out = std_min t_out_x (std_min t_out_y t_out_z)
      in if t_out \<ge> Fin 0 \<and> t_in \<le> t_out then True else False)"

text \<open>
  The parametric distances of one axis as the test computes them: to the plane where
  the ray enters the slab and to the plane where it leaves, given the two bounds of the
  slab, the origin, the reciprocal of the direction and the sign flag of the axis.
\<close>

definition slab_entry :: "fl \<Rightarrow> fl \<Rightarrow> fl \<Rightarrow> fl \<Rightarrow> bool \<Rightarrow> fl" where
  "slab_entry lo hi orig reciprocal is_negative =
     (if is_negative then mul_float (sub_float hi orig) reciprocal
      else mul_float (sub_float lo orig) reciprocal)"

definition slab_exit :: "fl \<Rightarrow> fl \<Rightarrow> fl \<Rightarrow> fl \<Rightarrow> bool \<Rightarrow> fl" where
  "slab_exit lo hi orig reciprocal is_negative =
     (if is_negative then mul_float (sub_float lo orig) reciprocal
      else mul_float (sub_float hi orig) reciprocal)"

definition box_entry :: "AABB_3D \<Rightarrow> Ray \<Rightarrow> vec3 \<Rightarrow> bool \<times> bool \<times> bool \<Rightarrow> fl" where
  "box_entry b ray reciprocal is_negative =
     std_max
       (slab_entry (vx (min_slab_values b)) (vx (max_slab_values b)) (vx (m_origin ray))
          (vx reciprocal) (fst is_negative))
       (std_max
          (slab_entry (vy (min_slab_values b)) (vy (max_slab_values b)) (vy (m_origin ray))
             (vy reciprocal) (fst (snd is_negative)))
          (slab_entry (vz (min_slab_values b)) (vz (max_slab_values b)) (vz (m_origin ray))
             (vz reciprocal) (snd (snd is_negative))))"

definition box_exit :: "AABB_3D \<Rightarrow> Ray \<Rightarrow> vec3 \<Rightarrow> bool \<times> bool \<times> bool \<Rightarrow> fl" where
  "box_exit b ray reciprocal is_negative =
     std_min
       (slab_exit (vx (min_slab_values b)) (vx (max_slab_values b)) (vx (m_origin ray))
          (vx reciprocal) (fst is_negative))
       (std_min
          (slab_exit (vy (min_slab_values b)) (vy (max_slab_values b)) (vy (m_origin ray))
             (vy reciprocal) (fst (snd is_negative)))
          (slab_exit (vz (min_slab_values b)) (vz (max_slab_values b)) (vz (m_origin ray))
             (vz reciprocal) (snd (snd is_negative))))"

text \<open>A number of the format \<^verbatim>\<open>float\<close>, and a vector of three of them.\<close>

definition is_float :: "fl \<Rightarrow> bool" where
  "is_float a = (case a of Fin x \<Rightarrow> binary32 x = Fin x | _ \<Rightarrow> False)"

definition float_vec :: "vec3 \<Rightarrow> bool" where
  "float_vec v = (is_float (vx v) \<and> is_float (vy v) \<and> is_float (vz v))"

text \<open>The unit cube, and a ray from the middle of one of its faces that the test rejects.\<close>

definition unit_cube :: AABB_3D where
  "unit_cube = \<lparr> min_slab_values = fvec 0 0 0, max_slab_values = fvec 1 1 1 \<rparr>"

definition shallow_ray :: Ray where
  "shallow_ray = Ray_ctor (fvec 0 0.5 0.5) (fvec (2 powi - 130) 1 1)"

definition inner_ray :: Ray where
  "inner_ray = Ray_ctor (fvec 0.5 0.5 0.5) (fvec 1 (- 2) 4)"

section \<open>Spheres (VectorFloat.h, WhittedUtilities.h, Sphere.h)\<close>



record 'm Sphere =
  material :: 'm
  m_center :: vec3
  m_radius :: fl
  radius_squared :: fl


definition Sphere_Get3DAABB :: "'m Sphere \<Rightarrow> AABB_3D" where
  "Sphere_Get3DAABB s =
     AABB_3D_diag (adds_vec3 (m_center s) (m_radius s)) (subs_vec3 (m_center s) (m_radius s))"









section \<open>Ray-triangle intersection (TriangleMesh.h)\<close>








lemma fl_le_trans: "(a::fl) \<le> b \<Longrightarrow> b \<le> c \<Longrightarrow> a \<le> c"
  by (cases a; cases b; cases c) simp_all

lemma fl_le_nan: "(a::fl) \<le> b \<Longrightarrow> \<not> is_nan a \<and> \<not> is_nan b"
  by (cases a; cases b) simp_all

lemma glm_min_le1: "\<not> is_nan a \<Longrightarrow> \<not> is_nan b \<Longrightarrow> glm_min a b \<le> a"
  by (cases a; cases b) (simp_all add: glm_min_def)

lemma glm_min_le2: "\<not> is_nan a \<Longrightarrow> \<not> is_nan b \<Longrightarrow> glm_min a b \<le> b"
  by (cases a; cases b) (simp_all add: glm_min_def)

lemma glm_max_ge1: "\<not> is_nan a \<Longrightarrow> \<not> is_nan b \<Longrightarrow> a \<le> glm_max a b"
  by (cases a; cases b) (simp_all add: glm_max_def)

lemma glm_max_ge2: "\<not> is_nan a \<Longrightarrow> \<not> is_nan b \<Longrightarrow> b \<le> glm_max a b"
  by (cases a; cases b) (simp_all add: glm_max_def)

lemma glm_min_commute: "\<not> is_nan a \<Longrightarrow> \<not> is_nan b \<Longrightarrow> glm_min a b = glm_min b a"
  by (cases a; cases b) (simp_all add: glm_min_def)

lemma glm_max_commute: "\<not> is_nan a \<Longrightarrow> \<not> is_nan b \<Longrightarrow> glm_max a b = glm_max b a"
  by (cases a; cases b) (simp_all add: glm_max_def)

lemma glm_min_assoc:
  "\<not> is_nan a \<Longrightarrow> \<not> is_nan b \<Longrightarrow> \<not> is_nan c \<Longrightarrow>
   glm_min (glm_min a b) c = glm_min a (glm_min b c)"
  by (cases a; cases b; cases c) (simp_all add: glm_min_def)

lemma glm_max_assoc:
  "\<not> is_nan a \<Longrightarrow> \<not> is_nan b \<Longrightarrow> \<not> is_nan c \<Longrightarrow>
   glm_max (glm_max a b) c = glm_max a (glm_max b c)"
  by (cases a; cases b; cases c) (simp_all add: glm_max_def)

lemma glm_min_PInf: "glm_min a PInf = a"
  by (cases a) (simp_all add: glm_min_def)

lemma glm_max_NInf: "glm_max a NInf = a"
  by (cases a) (simp_all add: glm_max_def)

lemma glm_PInf_min: "\<not> is_nan a \<Longrightarrow> glm_min PInf a = a"
  by (cases a) (simp_all add: glm_min_def)

lemma glm_NInf_max: "\<not> is_nan a \<Longrightarrow> glm_max NInf a = a"
  by (cases a) (simp_all add: glm_max_def)

lemma glm_min_not_nan: "\<not> is_nan a \<Longrightarrow> \<not> is_nan b \<Longrightarrow> \<not> is_nan (glm_min a b)"
  by (simp add: glm_min_def)

lemma glm_max_not_nan: "\<not> is_nan a \<Longrightarrow> \<not> is_nan b \<Longrightarrow> \<not> is_nan (glm_max a b)"
  by (simp add: glm_max_def)

lemma NInf_ge_iff: "(a \<le> NInf) = (a = NInf)"
  by (cases a) simp_all

lemma PInf_le_iff: "(PInf \<le> a) = (a = PInf)"
  by (cases a) simp_all

lemma union_contains_left:
  assumes "nan_free_box A" "nan_free_box B" "contains_point A p"
  shows "contains_point (Union_with_3D_AABB A B) p"
  using assms unfolding nan_free_box_def nan_free_def contains_point_def Union_with_3D_AABB_def glm_min3_def glm_max3_def
  by (auto intro: fl_le_trans[OF glm_min_le1] fl_le_trans[OF _ glm_max_ge1])

lemma union_contains_right:
  assumes "nan_free_box A" "nan_free_box B" "contains_point B p"
  shows "contains_point (Union_with_3D_AABB A B) p"
  using assms unfolding nan_free_box_def nan_free_def contains_point_def Union_with_3D_AABB_def glm_min3_def glm_max3_def
  by (auto intro: fl_le_trans[OF glm_min_le2] fl_le_trans[OF _ glm_max_ge2])

lemma union_encloses_left:
  assumes "nan_free_box A" "nan_free_box B"
  shows "encloses (Union_with_3D_AABB A B) A"
  using assms unfolding nan_free_box_def nan_free_def encloses_def Union_with_3D_AABB_def glm_min3_def glm_max3_def
  by (simp add: glm_min_le1 glm_max_ge1)

lemma union_encloses_right:
  assumes "nan_free_box A" "nan_free_box B"
  shows "encloses (Union_with_3D_AABB A B) B"
  using assms unfolding nan_free_box_def nan_free_def encloses_def Union_with_3D_AABB_def glm_min3_def glm_max3_def
  by (simp add: glm_min_le2 glm_max_ge2)

lemma union_commute:
  assumes "nan_free_box A" "nan_free_box B"
  shows "Union_with_3D_AABB A B = Union_with_3D_AABB B A"
  using assms unfolding nan_free_box_def nan_free_def Union_with_3D_AABB_def glm_min3_def glm_max3_def
  by (simp add: glm_min_commute glm_max_commute)

lemma union_assoc:
  assumes "nan_free_box A" "nan_free_box B" "nan_free_box C"
  shows "Union_with_3D_AABB (Union_with_3D_AABB A B) C = Union_with_3D_AABB A (Union_with_3D_AABB B C)"
  using assms unfolding nan_free_box_def nan_free_def Union_with_3D_AABB_def glm_min3_def glm_max3_def
  by (simp add: glm_min_assoc glm_max_assoc)

lemma union_empty_right: "Union_with_3D_AABB A AABB_3D_empty = A"
  unfolding Union_with_3D_AABB_def AABB_3D_empty_def glm_min3_def glm_max3_def
  by (simp add: glm_min_PInf glm_max_NInf)

lemma union_empty_left: "nan_free_box A \<Longrightarrow> Union_with_3D_AABB AABB_3D_empty A = A"
  unfolding Union_with_3D_AABB_def AABB_3D_empty_def glm_min3_def glm_max3_def nan_free_box_def nan_free_def
  by (simp add: glm_PInf_min glm_NInf_max)

lemma empty_contains_nothing: "\<not> contains_point AABB_3D_empty p"
proof -
  have "\<not> (PInf \<le> a \<and> a \<le> NInf)" for a by (cases a) simp_all
  then show ?thesis unfolding contains_point_def AABB_3D_empty_def by simp
qed

lemma empty_intersects_iff:
  "intersects_with_3D_AABB AABB_3D_empty B \<longleftrightarrow> B = AABB_3D_everything"
proof -
  obtain mn mx where B: "B = \<lparr> min_slab_values = mn, max_slab_values = mx \<rparr>" by (cases B) auto
  obtain a b c where mn: "mn = vec3 a b c" by (cases mn) auto
  obtain d e f where mx: "mx = vec3 d e f" by (cases mx) auto
  show ?thesis
    unfolding intersects_with_3D_AABB_def AABB_3D_empty_def AABB_3D_everything_def B mn mx
    by (auto simp: NInf_ge_iff PInf_le_iff)
qed

lemma intersects_empty_iff:
  "intersects_with_3D_AABB B AABB_3D_empty \<longleftrightarrow> B = AABB_3D_everything"
proof -
  obtain mn mx where B: "B = \<lparr> min_slab_values = mn, max_slab_values = mx \<rparr>" by (cases B) auto
  obtain a b c where mn: "mn = vec3 a b c" by (cases mn) auto
  obtain d e f where mx: "mx = vec3 d e f" by (cases mx) auto
  show ?thesis
    unfolding intersects_with_3D_AABB_def AABB_3D_empty_def AABB_3D_everything_def B mn mx
    by (auto simp: NInf_ge_iff PInf_le_iff)
qed

text \<open>
  The empty box passes the intersection test against the unbounded box, which is not
  an empty box.
\<close>

theorem empty_box_meets_unbounded_box:
  "intersects_with_3D_AABB AABB_3D_empty AABB_3D_everything
   \<and> AABB_3D_everything \<noteq> AABB_3D_empty"
  by (simp add: intersects_with_3D_AABB_def AABB_3D_empty_def AABB_3D_everything_def)

text \<open>
  Claim C6, as the code has it. For boxes without NaN coordinates, the union of two boxes
  contains every point of either box and encloses both, and union is commutative and
  associative. The default-constructed empty box is a right identity of union for every
  box and a left identity for every box without NaN. The empty box contains no point. It
  passes the box-box intersection test, in either argument order, against exactly one box:
  the one unbounded on the three axes (\<open>min = -inf\<close>, \<open>max = +inf\<close>), as the comment in
  \<^verbatim>\<open>intersects_with_3D_AABB\<close> says; in particular it fails the test against itself.
\<close>

theorem union_algebra:
  assumes "nan_free_box A" and "nan_free_box B" and "nan_free_box C"
  shows "(contains_point A p \<longrightarrow> contains_point (Union_with_3D_AABB A B) p)
       \<and> (contains_point B p \<longrightarrow> contains_point (Union_with_3D_AABB A B) p)
       \<and> encloses (Union_with_3D_AABB A B) A \<and> encloses (Union_with_3D_AABB A B) B
       \<and> Union_with_3D_AABB A B = Union_with_3D_AABB B A
       \<and> Union_with_3D_AABB (Union_with_3D_AABB A B) C
           = Union_with_3D_AABB A (Union_with_3D_AABB B C)
       \<and> Union_with_3D_AABB A AABB_3D_empty = A
       \<and> Union_with_3D_AABB AABB_3D_empty A = A
       \<and> \<not> contains_point AABB_3D_empty p
       \<and> (intersects_with_3D_AABB AABB_3D_empty B \<longleftrightarrow> B = AABB_3D_everything)
       \<and> (intersects_with_3D_AABB B AABB_3D_empty \<longleftrightarrow> B = AABB_3D_everything)
       \<and> \<not> intersects_with_3D_AABB AABB_3D_empty AABB_3D_empty"
proof -
  have e: "\<not> intersects_with_3D_AABB AABB_3D_empty AABB_3D_empty"
    by (simp add: intersects_with_3D_AABB_def AABB_3D_empty_def)
  show ?thesis
    using union_contains_left[OF assms(1,2)] union_contains_right[OF assms(1,2)]
      union_encloses_left[OF assms(1,2)] union_encloses_right[OF assms(1,2)]
      union_commute[OF assms(1,2)] union_assoc[OF assms] union_empty_right[of A]
      union_empty_left[OF assms(1)] empty_contains_nothing[of p]
      empty_intersects_iff[of B] intersects_empty_iff[of B] e
    by blast
qed

theorem union_algebra_witness:
  "nan_free_box (AABB_3D_diag (fvec 0 0 0) (fvec 1 1 1))
   \<and> nan_free_box (AABB_3D_diag (fvec 2 2 2) (fvec 3 3 3))
   \<and> nan_free_box AABB_3D_empty
   \<and> contains_point (AABB_3D_diag (fvec 0 0 0) (fvec 1 1 1)) (fvec 0.5 0.5 0.5)
   \<and> contains_point (Union_with_3D_AABB (AABB_3D_diag (fvec 0 0 0) (fvec 1 1 1))
                                          (AABB_3D_diag (fvec 2 2 2) (fvec 3 3 3))) (fvec 0.5 0.5 0.5)
   \<and> Union_with_3D_AABB (AABB_3D_diag (fvec 0 0 0) (fvec 1 1 1)) (AABB_3D_diag (fvec 2 2 2) (fvec 3 3 3))
     = Union_with_3D_AABB (AABB_3D_diag (fvec 2 2 2) (fvec 3 3 3)) (AABB_3D_diag (fvec 0 0 0) (fvec 1 1 1))
   \<and> Union_with_3D_AABB (AABB_3D_diag (fvec 0 0 0) (fvec 1 1 1)) AABB_3D_empty
     = AABB_3D_diag (fvec 0 0 0) (fvec 1 1 1)
   \<and> \<not> intersects_with_3D_AABB AABB_3D_empty (AABB_3D_diag (fvec 2 2 2) (fvec 3 3 3))"
proof -
  have h1: "nan_free_box (AABB_3D_diag (fvec 0 0 0) (fvec 1 1 1))"
    by (simp add: nan_free_box_def nan_free_def AABB_3D_diag_def fvec_def std_fmin_def std_fmax_def)
  have h2: "nan_free_box (AABB_3D_diag (fvec 2 2 2) (fvec 3 3 3))"
    by (simp add: nan_free_box_def nan_free_def AABB_3D_diag_def fvec_def std_fmin_def std_fmax_def)
  have h3: "nan_free_box AABB_3D_empty"
    by (simp add: nan_free_box_def nan_free_def AABB_3D_empty_def)
  have c: "contains_point (AABB_3D_diag (fvec 0 0 0) (fvec 1 1 1)) (fvec 0.5 0.5 0.5)"
    by (simp add: contains_point_def AABB_3D_diag_def fvec_def std_fmin_def std_fmax_def)
  have n: "AABB_3D_diag (fvec 2 2 2) (fvec 3 3 3) \<noteq> AABB_3D_everything"
    by (simp add: AABB_3D_diag_def fvec_def std_fmin_def std_fmax_def AABB_3D_everything_def)
  from union_algebra[OF h1 h2 h3, of "fvec 0.5 0.5 0.5"] h1 h2 h3 c n show ?thesis
    by blast
qed

text \<open>
  A box with extents \<open>1, 1, 0.5\<close>: X and Y tie for the largest extent and the result is
  Y, not X.
\<close>

theorem longest_axis_ties_not_x_first:
  "vx (diagonal_vector (AABB_3D_diag (fvec 0 0 0) (fvec 1 1 0.5)))
     = vy (diagonal_vector (AABB_3D_diag (fvec 0 0 0) (fvec 1 1 0.5)))
   \<and> vz (diagonal_vector (AABB_3D_diag (fvec 0 0 0) (fvec 1 1 0.5)))
     < vx (diagonal_vector (AABB_3D_diag (fvec 0 0 0) (fvec 1 1 0.5)))
   \<and> longest_axis (AABB_3D_diag (fvec 0 0 0) (fvec 1 1 0.5)) = Y_axis"
  by (simp add: longest_axis_def diagonal_vector_def AABB_3D_diag_def fvec_def
      std_fmin_def std_fmax_def minus_vec3_def minus_fl_def)

lemma fl_total: "\<not> is_nan a \<Longrightarrow> \<not> is_nan b \<Longrightarrow> (a::fl) < b \<or> b \<le> a"
  by (cases a; cases b) auto

lemma fl_less_le: "(a::fl) < b \<Longrightarrow> a \<le> b"
  by (cases a; cases b) auto

lemma fl_less_not_le: "(a::fl) < b \<Longrightarrow> \<not> b \<le> a"
  by (cases a; cases b) auto

lemma fl_less_trans: "(a::fl) < b \<Longrightarrow> b < c \<Longrightarrow> a < c"
  by (cases a; cases b; cases c) auto

text \<open>
  Claim C9, as the code has it. For a box whose diagonal has no NaN component,
  \<^verbatim>\<open>longest_axis\<close> returns an axis whose extent is at least the extent of the three axes.
  X is returned only when its extent is strictly the largest, Y when its extent is at
  least that of X and strictly larger than that of Z, and Z otherwise: a tie goes to the
  later axis (Z before Y before X).
\<close>

theorem longest_axis_largest_extent:
  assumes "nan_free (diagonal_vector b)"
  shows "vx (diagonal_vector b) \<le> axis_component (longest_axis b) (diagonal_vector b)
       \<and> vy (diagonal_vector b) \<le> axis_component (longest_axis b) (diagonal_vector b)
       \<and> vz (diagonal_vector b) \<le> axis_component (longest_axis b) (diagonal_vector b)
       \<and> (longest_axis b = X_axis \<longleftrightarrow>
            vy (diagonal_vector b) < vx (diagonal_vector b) \<and> vz (diagonal_vector b) < vx (diagonal_vector b))
       \<and> (longest_axis b = Y_axis \<longleftrightarrow>
            vx (diagonal_vector b) \<le> vy (diagonal_vector b) \<and> vz (diagonal_vector b) < vy (diagonal_vector b))
       \<and> (longest_axis b = Z_axis \<longleftrightarrow>
            vx (diagonal_vector b) \<le> vz (diagonal_vector b) \<and> vy (diagonal_vector b) \<le> vz (diagonal_vector b))"
proof -
  obtain dx dy dz where d: "diagonal_vector b = vec3 dx dy dz" by (cases "diagonal_vector b") auto
  from assms d have n: "\<not> is_nan dx" "\<not> is_nan dy" "\<not> is_nan dz" by (simp_all add: nan_free_def)
  show ?thesis
    unfolding longest_axis_def d Let_def using n
    by (cases dx; cases dy; cases dz) auto
qed

theorem longest_axis_largest_extent_witness:
  "nan_free (diagonal_vector (AABB_3D_diag (fvec 0 0 0) (fvec 1 2 2)))
   \<and> longest_axis (AABB_3D_diag (fvec 0 0 0) (fvec 1 2 2)) = Z_axis
   \<and> vy (diagonal_vector (AABB_3D_diag (fvec 0 0 0) (fvec 1 2 2)))
       \<le> vz (diagonal_vector (AABB_3D_diag (fvec 0 0 0) (fvec 1 2 2)))"
proof -
  have d: "diagonal_vector (AABB_3D_diag (fvec 0 0 0) (fvec 1 2 2)) = fvec 1 2 2"
    by (simp add: diagonal_vector_def AABB_3D_diag_def fvec_def std_fmin_def std_fmax_def
        minus_vec3_def minus_fl_def)
  have h: "nan_free (diagonal_vector (AABB_3D_diag (fvec 0 0 0) (fvec 1 2 2)))"
    unfolding d by (simp add: nan_free_def fvec_def)
  have le: "vx (fvec 1 2 2) \<le> vz (fvec 1 2 2)" "vy (fvec 1 2 2) \<le> vz (fvec 1 2 2)"
    by (simp_all add: fvec_def)
  from longest_axis_largest_extent[OF h] le h show ?thesis
    unfolding d by blast
qed

lemma of_real3_sub: "of_real3 a - of_real3 b = of_real3 (r3_sub a b)"
  by (cases a; cases b) (simp add: minus_vec3_def minus_fl_def)

lemma of_real3_cross: "cross (of_real3 a) (of_real3 b) = of_real3 (r3_cross a b)"
  by (cases a; cases b) (simp add: cross_def minus_fl_def)

lemma of_real3_dot: "dot (of_real3 a) (of_real3 b) = Fin (r3_dot a b)"
  by (cases a; cases b) (simp add: dot_def)



lemma fl_not_less_le: "\<not> is_nan a \<Longrightarrow> \<not> is_nan b \<Longrightarrow> \<not> (b::fl) < a \<Longrightarrow> a \<le> b"
  by (cases a; cases b) auto

lemma mset_stable_insert: "mset (stable_insert cmp x xs) = add_mset x (mset xs)"
  by (induction xs) auto

lemma mset_stable_sort: "mset (stable_sort cmp xs) = mset xs"
  by (induction xs) (auto simp: mset_stable_insert)

lemma set_stable_insert: "set (stable_insert cmp x xs) = insert x (set xs)"
  by (induction xs) auto

lemma sorted_stable_insert:
  assumes asym: "\<And>a b. cmp a b \<Longrightarrow> \<not> cmp b a"
    and ntr: "\<And>a b c. \<not> cmp a b \<Longrightarrow> \<not> cmp b c \<Longrightarrow> \<not> cmp a c"
    and "sorted_wrt (\<lambda>a b. \<not> cmp b a) xs"
  shows "sorted_wrt (\<lambda>a b. \<not> cmp b a) (stable_insert cmp x xs)"
  using assms(3)
proof (induction xs)
  case Nil
  then show ?case by simp
next
  case (Cons y ys)
  show ?case
  proof (cases "cmp y x")
    case True
    with Cons asym show ?thesis by (auto simp: set_stable_insert)
  next
    case False
    with Cons ntr show ?thesis by auto
  qed
qed

lemma sorted_stable_sort:
  assumes asym: "\<And>a b. cmp a b \<Longrightarrow> \<not> cmp b a"
    and ntr: "\<And>a b c. \<not> cmp a b \<Longrightarrow> \<not> cmp b c \<Longrightarrow> \<not> cmp a c"
  shows "sorted_wrt (\<lambda>a b. \<not> cmp b a) (stable_sort cmp xs)"
  by (induction xs) (auto intro: sorted_stable_insert[OF asym ntr])

lemma length_stable_insert: "length (stable_insert cmp x xs) = Suc (length xs)"
  by (induction xs) auto

lemma length_stable_sort: "length (stable_sort cmp xs) = length xs"
  by (induction xs) (auto simp: length_stable_insert)

lemma sorted_stable_insert_key:
  assumes "\<not> is_nan (key x)" "\<forall>e\<in>set xs. \<not> is_nan (key e)"
    and "sorted_wrt (\<lambda>a b. \<not> key b < key a) xs"
  shows "sorted_wrt (\<lambda>a b. \<not> key b < key a) (stable_insert (\<lambda>a b. key a < key b) x xs)"
  using assms(2,3)
proof (induction xs)
  case Nil
  then show ?case by simp
next
  case (Cons y ys)
  have asym: "\<not> key x < key y" if "key y < key x"
    using that by (rule fl_less_not_le[THEN contrapos_nn]) (rule fl_less_le)
  have ntr: "\<not> key z < key x" if "\<not> key z < key y" "\<not> key y < key x" "\<not> is_nan (key z)" for z
  proof -
    from Cons.prems(1) have ny: "\<not> is_nan (key y)" by simp
    from that(1) that(3) ny have "key y \<le> key z" by (simp add: fl_not_less_le)
    moreover from that(2) ny assms(1) have "key x \<le> key y" by (simp add: fl_not_less_le)
    ultimately have "key x \<le> key z" by (rule fl_le_trans[rotated])
    then show ?thesis using fl_less_not_le by blast
  qed
  show ?case
  proof (cases "key y < key x")
    case True
    with Cons asym show ?thesis by (auto simp: set_stable_insert)
  next
    case False
    with Cons ntr show ?thesis by auto
  qed
qed

lemma sorted_stable_sort_key:
  assumes "\<forall>e\<in>set xs. \<not> is_nan (key e)"
  shows "sorted_wrt (\<lambda>a b. \<not> key b < key a) (stable_sort (\<lambda>a b. key a < key b) xs)"
  using assms
proof (induction xs)
  case Nil
  then show ?case by simp
next
  case (Cons x xs)
  have "set (stable_sort (\<lambda>a b. key a < key b) xs) = set xs"
    by (metis mset_stable_sort set_mset_mset)
  with Cons show ?case by (auto intro!: sorted_stable_insert_key)
qed

lemma is_fin_not_nan: "is_fin a \<Longrightarrow> \<not> is_nan a"
  by (cases a) auto

lemma is_fin_iff: "is_fin a \<longleftrightarrow> (\<exists>r. a = Fin r)"
  by (cases a) auto

lemma finite_vec_iff: "finite_vec v \<longleftrightarrow> (\<exists>a b c. v = fvec a b c)"
  by (cases v) (auto simp: finite_vec_def fvec_def is_fin_iff)

lemma finite_box_iff:
  "finite_box b \<longleftrightarrow>
     (\<exists>lx ly lz hx hy hz. b = \<lparr>min_slab_values = fvec lx ly lz, max_slab_values = fvec hx hy hz\<rparr>)"
  by (cases b) (auto simp: finite_box_def finite_vec_iff)

lemma fl_le_antisym: "(a::fl) \<le> b \<Longrightarrow> b \<le> a \<Longrightarrow> a = b"
  by (cases a; cases b) auto

lemma fl_less_le_trans: "(a::fl) < b \<Longrightarrow> b \<le> c \<Longrightarrow> a \<le> c"
  by (cases a; cases b; cases c) auto

lemma fl_less_not_nan: "(a::fl) < b \<Longrightarrow> \<not> is_nan a \<and> \<not> is_nan b"
  by (cases a; cases b) auto

lemma fl_le_less_False: "(a::fl) \<le> b \<Longrightarrow> b < a \<Longrightarrow> False"
  by (cases a; cases b) auto

lemma finite_box_nan_free: "finite_box b \<Longrightarrow> nan_free_box b"
  unfolding finite_box_iff by (auto simp: nan_free_box_def nan_free_def fvec_def)

lemma fl_less_self_le: "(a::fl) < b \<Longrightarrow> a \<le> a"
  by (cases a; cases b) auto

lemma sqrt_36: "sqrt 36 = 6"
  using real_sqrt_abs2[of 6] by simp

lemma DBL_MAX_large: "1000 < DBL_MAX"
proof -
  have "(2::real) ^ 1024 = 2 ^ 971 * 2 ^ 53" by (simp flip: power_add)
  then have "DBL_MAX = 2 ^ 971 * (2 ^ 53 - 1)" by (simp add: DBL_MAX_def algebra_simps)
  moreover have "(1::real) \<le> 2 ^ 971" by simp
  moreover have "(1000::real) < 2 ^ 53 - 1" by simp
  ultimately show ?thesis
    by (metis less_le_trans mult.commute mult_le_cancel_left1 not_le order_less_imp_le zero_less_numeral
        zero_less_power mult_left_mono mult_1 less_eq_real_def one_le_power one_le_numeral)
qed















lemma radiance_direct_code:
  assumes "find (Entity_IsEmissive renderer) (entities renderer) = Some light"
    and "Entity_Sampling renderer light (light_draw d) PT_IntersectionRecord_default
           = (light_sample, pdf_area)"
  shows "radiance_direct_of renderer d m record W_out =
     Some (if glm_length (location light_sample - shading_point_of record W_out)
                < t (ray_BVH_intersection_record renderer
                       (Ray_ctor (shading_point_of record W_out)
                          (glm_normalize (location light_sample - shading_point_of record W_out))))
                  + Fin 0.01
           then vdivs
                  (vdivs
                    (vmuls
                      (vmuls (emission light_sample
                                * BRDF m W_out
                                    (glm_normalize (location light_sample - shading_point_of record W_out))
                                    (shading_point_normal_of record W_out))
                         (dot (glm_normalize (location light_sample - shading_point_of record W_out))
                              (shading_point_normal_of record W_out)))
                      (dot (- glm_normalize (location light_sample - shading_point_of record W_out))
                           (if dot (surface_normal light_sample)
                                   (- glm_normalize (location light_sample - shading_point_of record W_out))
                                 < Fin 0
                            then - surface_normal light_sample else surface_normal light_sample)))
                    (dot (location light_sample - shading_point_of record W_out)
                         (location light_sample - shading_point_of record W_out)))
                  pdf_area
           else vec3 (Fin 0) (Fin 0) (Fin 0))"
  unfolding radiance_direct_of_def SamplingAreaLight_def assms Let_def option.case prod.case
  by (cases "glm_length (location light_sample - shading_point_of record W_out)
                < t (ray_BVH_intersection_record renderer
                       (Ray_ctor (shading_point_of record W_out)
                          (glm_normalize (location light_sample - shading_point_of record W_out))))
                  + Fin 0.01")
    (simp_all only: if_True if_False option.case)

lemma shading_roulette_lost:
  assumes "hitted_entity_material record = Some m" and "\<not> IsEmitting m"
    and "\<not> roulette_draw d < Fin RR_survival_probability"
    and "radiance_direct_of renderer d m record W_out = Some direct"
  shows "shading renderer (d # ds) record W_out = Radiance (direct + vec3 (Fin 0) (Fin 0) (Fin 0))"
  using assms by (simp add: Let_def)


lemma PI_pos: "0 < PI"
  by (simp add: PI_def)

lemma lamp_scene_light:
  "find (Entity_IsEmissive (lamp_scene answer)) (entities (lamp_scene answer)) = Some 1"
  by (simp add: lamp_scene_def)

lemma lamp_scene_sampling:
  "Entity_Sampling (lamp_scene answer) 1 r PT_IntersectionRecord_default = (lamp_sample r, Fin 1)"
  by (simp add: lamp_scene_def lamp_sample_def)

lemma lamp_scene_answer: "ray_BVH_intersection_record (lamp_scene answer) ray = answer ray"
  by (simp add: lamp_scene_def)

lemma lamp_sample_fields:
  "location (lamp_sample r) = r"
  "surface_normal (lamp_sample r) = fvec 0 0 (- 1)"
  "emission (lamp_sample r) = fvec 1 1 1"
  by (simp_all add: lamp_sample_def)

lemma floor_geometry:
  "shading_point_normal_of floor_record (fvec 0 0 1) = fvec 0 0 1"
  "shading_point_of floor_record (fvec 0 0 1) = fvec 0 0 0.00001"
  by (simp_all add: shading_point_of_def shading_point_normal_of_def floor_record_def fvec_def
      dot_def vmuls_def plus_vec3_def INTERSECTION_CORRECTION_def)

lemma floor_to_lamp:
  "fvec 0 0 1.00001 - fvec 0 0 0.00001 = fvec 0 0 1"
  by (simp add: fvec_def minus_vec3_def minus_fl_def)

lemma up_is_unit:
  "glm_normalize (fvec 0 0 1) = fvec 0 0 1"
  "glm_length (fvec 0 0 1) = Fin 1"
  "dot (fvec 0 0 1) (fvec 0 0 1) = Fin 1"
  "- fvec 0 0 1 = fvec 0 0 (- 1)"
  "dot (fvec 0 0 (- 1)) (fvec 0 0 (- 1)) = Fin 1"
  by (simp_all add: glm_normalize_def glm_length_def fvec_def dot_def vmuls_def uminus_vec3_def
      inverse_fl_def)

lemma white_floor_BRDF:
  "BRDF white_material W_out (fvec 0 0 1) (fvec 0 0 1) = fvec (1 / PI) (1 / PI) (1 / PI)"
proof -
  have k: "vdivs (diffuse_coefficient white_material) (Fin PI) = fvec (1 / PI) (1 / PI) (1 / PI)"
    using PI_pos by (simp add: white_material_def vdivs_def fvec_def)
  show ?thesis
    unfolding BRDF_def up_is_unit k by simp
qed

lemma lamp_term:
  "vdivs (vdivs (vmuls (vmuls (fvec 1 1 1 * fvec (1 / PI) (1 / PI) (1 / PI)) (Fin 1)) (Fin 1))
            (Fin 1)) (Fin 1)
     = fvec (1 / PI) (1 / PI) (1 / PI)"
  by (simp add: vdivs_def vmuls_def times_vec3_def fvec_def)

lemma plus_zero_vec: "fvec a b c + vec3 (Fin 0) (Fin 0) (Fin 0) = fvec a b c"
  by (simp add: fvec_def plus_vec3_def)



lemma shading_emitting:
  assumes "hitted_entity_material record = Some m" and "IsEmitting m"
  shows "shading renderer ds record W_out = Radiance (GetEmission m)"
  using assms by (cases ds) simp_all

lemma shading_bounce_misses:
  assumes "hitted_entity_material record = Some m" and "\<not> IsEmitting m"
    and "radiance_direct_of renderer d m record W_out = Some direct"
    and "roulette_draw d < Fin RR_survival_probability"
    and "\<not> has_intersection
            (ray_BVH_intersection_record renderer
               (Ray_ctor (shading_point_of record W_out)
                  (glm_normalize
                     (WhittedMaterial_Sampling m W_out (shading_point_normal_of record W_out)
                        (hemisphere_draw_1 d) (hemisphere_draw_2 d)))))"
  shows "shading renderer (d # ds) record W_out = Radiance (direct + vec3 (Fin 0) (Fin 0) (Fin 0))"
  using assms by (simp add: Let_def)

lemma shading_bounce_hits_light:
  assumes "hitted_entity_material record = Some m" and "\<not> IsEmitting m"
    and "radiance_direct_of renderer d m record W_out = Some direct"
    and "roulette_draw d < Fin RR_survival_probability"
    and "has_intersection
            (ray_BVH_intersection_record renderer
               (Ray_ctor (shading_point_of record W_out)
                  (glm_normalize
                     (WhittedMaterial_Sampling m W_out (shading_point_normal_of record W_out)
                        (hemisphere_draw_1 d) (hemisphere_draw_2 d)))))"
    and "hitted_entity_material
            (ray_BVH_intersection_record renderer
               (Ray_ctor (shading_point_of record W_out)
                  (glm_normalize
                     (WhittedMaterial_Sampling m W_out (shading_point_normal_of record W_out)
                        (hemisphere_draw_1 d) (hemisphere_draw_2 d))))) = Some deeper_m"
    and "IsEmitting deeper_m"
  shows "shading renderer (d # ds) record W_out = Radiance (direct + vec3 (Fin 0) (Fin 0) (Fin 0))"
  using assms by (simp add: Let_def)

lemma shading_bounce_survives:
  assumes "hitted_entity_material record = Some m" and "\<not> IsEmitting m"
    and "radiance_direct_of renderer d m record W_out = Some direct"
    and "roulette_draw d < Fin RR_survival_probability"
    and "has_intersection
            (ray_BVH_intersection_record renderer
               (Ray_ctor (shading_point_of record W_out)
                  (glm_normalize
                     (WhittedMaterial_Sampling m W_out (shading_point_normal_of record W_out)
                        (hemisphere_draw_1 d) (hemisphere_draw_2 d)))))"
    and "hitted_entity_material
            (ray_BVH_intersection_record renderer
               (Ray_ctor (shading_point_of record W_out)
                  (glm_normalize
                     (WhittedMaterial_Sampling m W_out (shading_point_normal_of record W_out)
                        (hemisphere_draw_1 d) (hemisphere_draw_2 d))))) = Some deeper_m"
    and "\<not> IsEmitting deeper_m"
    and "shading renderer ds
            (ray_BVH_intersection_record renderer
               (Ray_ctor (shading_point_of record W_out)
                  (glm_normalize
                     (WhittedMaterial_Sampling m W_out (shading_point_normal_of record W_out)
                        (hemisphere_draw_1 d) (hemisphere_draw_2 d)))))
            (- glm_normalize
                 (WhittedMaterial_Sampling m W_out (shading_point_normal_of record W_out)
                    (hemisphere_draw_1 d) (hemisphere_draw_2 d)))
          = Radiance deeper_radiance"
  shows "shading renderer (d # ds) record W_out =
     Radiance
       (direct
        + vdivs
            (vdivs
               (vmuls
                  (deeper_radiance
                     * BRDF m W_out
                         (glm_normalize
                            (WhittedMaterial_Sampling m W_out (shading_point_normal_of record W_out)
                               (hemisphere_draw_1 d) (hemisphere_draw_2 d)))
                         (shading_point_normal_of record W_out))
                  (dot (glm_normalize
                          (WhittedMaterial_Sampling m W_out (shading_point_normal_of record W_out)
                             (hemisphere_draw_1 d) (hemisphere_draw_2 d)))
                       (shading_point_normal_of record W_out)))
               (PDF_at_the_sample m W_out
                  (glm_normalize
                     (WhittedMaterial_Sampling m W_out (shading_point_normal_of record W_out)
                        (hemisphere_draw_1 d) (hemisphere_draw_2 d)))
                  (shading_point_normal_of record W_out)))
            (Fin RR_survival_probability))"
  using assms by (simp add: Let_def)

lemma fl_divide_twice:
  assumes "0 < a" and "0 < b"
  shows "(x / Fin a) / Fin b = x / (Fin a * Fin b)"
  using assms by (cases x) simp_all

lemma vdivs_twice:
  assumes "0 < a" and "0 < b"
  shows "vdivs (vdivs v (Fin a)) (Fin b) = vdivs v (Fin a * Fin b)"
  unfolding vdivs_def vec3.sel by (simp only: fl_divide_twice[OF assms])

lemma PDF_at_the_sample_value: "PDF_at_the_sample m W_out W_in n = Fin (1 / (2 * PI))"
  using PI_pos by (simp add: PDF_at_the_sample_def)

text \<open>
  Claim C5. If the material of the hit emits, \<^verbatim>\<open>shading\<close> returns its emission, whatever the
  renderer and the random draws are: no ray is cast. Otherwise, with \<open>direct\<close> the direct
  radiance, the path continues when the draw is below \<^verbatim>\<open>RR_survival_probability\<close>, which
  is the constant \<open>0.8\<close> at every depth. The result is \<open>direct\<close> plus zero when the
  roulette is lost, when the bounce ray hits nothing and when it hits an emitting
  material. When it hits a material that does not emit and the recursive call returns
  the radiance \<open>L\<close>, the result is \<open>direct\<close> plus
  \<open>L * BRDF * cos / PDF / RR_survival_probability\<close>, where the PDF is \<open>1 / (2 PI)\<close> and the
  two divisions are the division by the product \<open>PDF * RR_survival_probability\<close>.
\<close>

theorem shading_russian_roulette:
  "RR_survival_probability = 0.8
   \<and> (hitted_entity_material record = Some m \<and> IsEmitting m
        \<longrightarrow> shading renderer ds record W_out = Radiance (GetEmission m))
   \<and> (hitted_entity_material record = Some m \<and> \<not> IsEmitting m
        \<and> radiance_direct_of renderer d m record W_out = Some direct
        \<longrightarrow>
        (let n = shading_point_normal_of record W_out;
             p = shading_point_of record W_out;
             W_in = glm_normalize
                      (WhittedMaterial_Sampling m W_out n (hemisphere_draw_1 d) (hemisphere_draw_2 d));
             PDF = PDF_at_the_sample m W_out W_in n;
             deeper = ray_BVH_intersection_record renderer (Ray_ctor p W_in);
             survives = (roulette_draw d < Fin RR_survival_probability);
             zero = vec3 (Fin 0) (Fin 0) (Fin 0)
         in (\<not> survives
               \<longrightarrow> shading renderer (d # ds) record W_out = Radiance (direct + zero))
          \<and> (survives \<and> \<not> has_intersection deeper
               \<longrightarrow> shading renderer (d # ds) record W_out = Radiance (direct + zero))
          \<and> (survives \<and> has_intersection deeper
               \<and> hitted_entity_material deeper = Some deeper_m \<and> IsEmitting deeper_m
               \<longrightarrow> shading renderer (d # ds) record W_out = Radiance (direct + zero))
          \<and> (survives \<and> has_intersection deeper
               \<and> hitted_entity_material deeper = Some deeper_m \<and> \<not> IsEmitting deeper_m
               \<and> shading renderer ds deeper (- W_in) = Radiance L
               \<longrightarrow> shading renderer (d # ds) record W_out
                     = Radiance (direct
                                 + vdivs (vdivs (vmuls (L * BRDF m W_out W_in n) (dot W_in n)) PDF)
                                     (Fin RR_survival_probability))
                   \<and> PDF = Fin (1 / (2 * PI))
                   \<and> vdivs (vdivs (vmuls (L * BRDF m W_out W_in n) (dot W_in n)) PDF)
                        (Fin RR_survival_probability)
                     = vdivs (vmuls (L * BRDF m W_out W_in n) (dot W_in n))
                         (PDF * Fin RR_survival_probability))))"
proof -
  have rr: "RR_survival_probability = 0.8"
    by (simp add: RR_survival_probability_def)
  have pdf_pos: "0 < 1 / (2 * PI)" and rr_pos: "0 < RR_survival_probability"
    using PI_pos by (simp_all add: RR_survival_probability_def)
  show ?thesis
    unfolding Let_def PDF_at_the_sample_value
    using rr shading_emitting[of "record" m renderer ds W_out]
      shading_roulette_lost[of "record" m d renderer W_out direct ds]
      shading_bounce_misses[of "record" m renderer d W_out direct ds]
      shading_bounce_hits_light[of "record" m renderer d W_out direct deeper_m ds]
      shading_bounce_survives[of "record" m renderer d W_out direct deeper_m ds L,
        unfolded PDF_at_the_sample_value]
      vdivs_twice[OF pdf_pos rr_pos]
    by blast
qed

lemma ceiling_geometry:
  "shading_point_normal_of ceiling_record (fvec 0 0 (- 1)) = fvec 0 0 (- 1)"
  "shading_point_of ceiling_record (fvec 0 0 (- 1)) = fvec 0 0 2"
  by (simp_all add: shading_point_of_def shading_point_normal_of_def ceiling_record_def fvec_def
      dot_def vmuls_def plus_vec3_def INTERSECTION_CORRECTION_def)

lemma ceiling_to_lamp:
  "fvec 0 0 1 - fvec 0 0 2 = fvec 0 0 (- 1)"
  by (simp add: fvec_def minus_vec3_def minus_fl_def)

lemma down_is_unit:
  "glm_normalize (fvec 0 0 (- 1)) = fvec 0 0 (- 1)"
  "glm_length (fvec 0 0 (- 1)) = Fin 1"
  "- fvec 0 0 (- 1) = fvec 0 0 1"
  "dot (fvec 0 0 (- 1)) (fvec 0 0 1) = Fin (- 1)"
  by (simp_all add: glm_normalize_def glm_length_def fvec_def dot_def vmuls_def uminus_vec3_def
      inverse_fl_def)

lemma white_ceiling_BRDF:
  "BRDF white_material W_out (fvec 0 0 (- 1)) (fvec 0 0 (- 1)) = fvec (1 / PI) (1 / PI) (1 / PI)"
proof -
  have k: "vdivs (diffuse_coefficient white_material) (Fin PI) = fvec (1 / PI) (1 / PI) (1 / PI)"
    using PI_pos by (simp add: white_material_def vdivs_def fvec_def)
  show ?thesis
    unfolding BRDF_def up_is_unit k by simp
qed

lemma sample_straight_up:
  "WhittedMaterial_Sampling white_material (fvec 0 0 1) (fvec 0 0 1) (Fin 1) (Fin 0) = fvec 0 0 1"
  by (simp add: WhittedMaterial_Sampling_def Let_def fvec_def glm_normalize_def dot_def vmuls_def
      smul_def cross_def plus_vec3_def minus_fl_def inverse_fl_def)

lemma two_bounce_answers:
  "ray_BVH_intersection_record two_bounce_scene (Ray_ctor (fvec 0 0 0.00001) dir) = ceiling_record"
  "ray_BVH_intersection_record two_bounce_scene (Ray_ctor (fvec 0 0 2) dir)
     = PT_IntersectionRecord_default"
  by (simp_all add: two_bounce_scene_def lamp_scene_answer Ray_ctor_def fvec_def)

lemma ceiling_record_fields:
  "has_intersection ceiling_record"
  "t ceiling_record = Fin 2"
  "hitted_entity_material ceiling_record = Some white_material"
  by (simp_all add: ceiling_record_def)

lemma white_material_not_emitting: "\<not> IsEmitting white_material"
  by (simp add: IsEmitting_def white_material_def)

lemma floor_material: "hitted_entity_material floor_record = Some white_material"
  by (simp add: floor_record_def)

lemma two_bounce_floor_direct:
  "radiance_direct_of two_bounce_scene bounce_draw white_material floor_record (fvec 0 0 1)
     = Some (fvec (1 / PI) (1 / PI) (1 / PI))"
proof -
  have d: "light_draw bounce_draw = fvec 0 0 1.00001"
    by (simp add: bounce_draw_def)
  have lt: "Fin 1 < Fin 2 + Fin 0.01"
    by simp
  have n10: "\<not> (1::real) < 0"
    by simp
  have s: "find (Entity_IsEmissive two_bounce_scene) (entities two_bounce_scene) = Some 1"
    "Entity_Sampling two_bounce_scene 1 (light_draw bounce_draw) PT_IntersectionRecord_default
       = (lamp_sample (light_draw bounce_draw), Fin 1)"
    unfolding two_bounce_scene_def by (rule lamp_scene_light, rule lamp_scene_sampling)
  show ?thesis
    unfolding radiance_direct_code[OF s]
    by (simp only: two_bounce_answers lamp_sample_fields d ceiling_record_fields
        floor_geometry floor_to_lamp up_is_unit white_floor_BRDF lt n10 lamp_term
        Let_def if_True if_False simp_thms less_fl.simps)
qed

lemma two_bounce_ceiling_direct:
  "radiance_direct_of two_bounce_scene ceiling_draw white_material ceiling_record (fvec 0 0 (- 1))
     = Some (fvec (1 / PI) (1 / PI) (1 / PI))"
proof -
  have d: "light_draw ceiling_draw = fvec 0 0 1"
    by (simp add: ceiling_draw_def)
  have far: "t PT_IntersectionRecord_default = Fin DBL_MAX"
    by (simp add: PT_IntersectionRecord_default_def)
  have lt: "Fin 1 < Fin DBL_MAX + Fin 0.01"
    using DBL_MAX_large by simp
  have n10: "(- 1::real) < 0"
    by simp
  have s: "find (Entity_IsEmissive two_bounce_scene) (entities two_bounce_scene) = Some 1"
    "Entity_Sampling two_bounce_scene 1 (light_draw ceiling_draw) PT_IntersectionRecord_default
       = (lamp_sample (light_draw ceiling_draw), Fin 1)"
    unfolding two_bounce_scene_def by (rule lamp_scene_light, rule lamp_scene_sampling)
  show ?thesis
    unfolding radiance_direct_code[OF s]
    by (simp only: two_bounce_answers lamp_sample_fields d far
        ceiling_geometry ceiling_to_lamp down_is_unit up_is_unit white_ceiling_BRDF lt n10 lamp_term
        Let_def if_True if_False simp_thms less_fl.simps)
qed

lemma two_bounce_ceiling_shading:
  "shading two_bounce_scene [ceiling_draw] ceiling_record (fvec 0 0 (- 1))
     = Radiance (fvec (1 / PI) (1 / PI) (1 / PI))"
proof -
  have lost: "\<not> roulette_draw ceiling_draw < Fin RR_survival_probability"
    by (simp add: ceiling_draw_def RR_survival_probability_def)
  show ?thesis
    using shading_roulette_lost[OF ceiling_record_fields(3) white_material_not_emitting lost
        two_bounce_ceiling_direct, of "[]"]
    by (simp only: plus_zero_vec)
qed

lemma two_bounce_value:
  "fvec (1 / PI) (1 / PI) (1 / PI)
     + vdivs (vdivs (vmuls (fvec (1 / PI) (1 / PI) (1 / PI) * fvec (1 / PI) (1 / PI) (1 / PI)) (Fin 1))
                (Fin (1 / (2 * PI))))
         (Fin RR_survival_probability)
   = fvec (7 / (2 * PI)) (7 / (2 * PI)) (7 / (2 * PI))"
  using PI_pos
  by (simp add: fvec_def vdivs_def vmuls_def times_vec3_def plus_vec3_def
      RR_survival_probability_def field_simps)

theorem shading_russian_roulette_witness:
  "shading two_bounce_scene [bounce_draw, ceiling_draw] floor_record (fvec 0 0 1)
     = Radiance (fvec (7 / (2 * PI)) (7 / (2 * PI)) (7 / (2 * PI)))
   \<and> shading two_bounce_scene [] lamp_record (fvec 0 0 1) = Radiance (fvec 47.8 38.6 31.1)"
proof -
  have d: "hemisphere_draw_1 bounce_draw = Fin 1" "hemisphere_draw_2 bounce_draw = Fin 0"
    "roulette_draw bounce_draw < Fin RR_survival_probability"
    by (simp_all add: bounce_draw_def RR_survival_probability_def)
  have lamp: "hitted_entity_material lamp_record = Some lamp_material" "IsEmitting lamp_material"
    "GetEmission lamp_material = fvec 47.8 38.6 31.1"
    by (simp_all add: lamp_record_def lamp_material_def IsEmitting_def GetEmission_def)
  have a: "shading two_bounce_scene [] lamp_record (fvec 0 0 1) = Radiance (fvec 47.8 38.6 31.1)"
    using shading_russian_roulette
            [of "lamp_record" lamp_material two_bounce_scene "[]" "fvec 0 0 1"]
    by (simp only: lamp simp_thms)
  have b: "shading two_bounce_scene [bounce_draw, ceiling_draw] floor_record (fvec 0 0 1)
     = Radiance (fvec (7 / (2 * PI)) (7 / (2 * PI)) (7 / (2 * PI)))"
    using shading_russian_roulette
            [of "floor_record" white_material two_bounce_scene "[ceiling_draw]" "fvec 0 0 1"
                bounce_draw "fvec (1 / PI) (1 / PI) (1 / PI)" white_material
                "fvec (1 / PI) (1 / PI) (1 / PI)"]
    by (simp only: floor_material white_material_not_emitting two_bounce_floor_direct d
        floor_geometry sample_straight_up up_is_unit two_bounce_answers ceiling_record_fields
        two_bounce_ceiling_shading white_floor_BRDF two_bounce_value PDF_at_the_sample_value
        Let_def simp_thms)
  show ?thesis
    using a b by (rule conjI[rotated])
qed



lemma spread_stddev:
  assumes "cs \<noteq> []"
  shows "(window_spread c cs)\<^sup>2 = (window_stddev cs)\<^sup>2 + (c - window_mean cs)\<^sup>2"
proof -
  define n where "n = real (length cs)"
  define S where "S = sum_list cs"
  define Q where "Q = sum_list (map (\<lambda>a. a\<^sup>2) cs)"
  have n: "0 < n"
    using assms by (simp add: n_def)
  have expand: "sum_list (map (\<lambda>a. (d - a)\<^sup>2) cs) = n * d\<^sup>2 - 2 * d * S + Q" for d
    unfolding n_def S_def Q_def
    by (induction cs) (simp_all add: power2_eq_square algebra_simps)
  have nonneg: "0 \<le> sum_list (map (\<lambda>a. (d - a)\<^sup>2) cs) / n" for d
    using n by (intro divide_nonneg_nonneg sum_list_nonneg) auto
  have sq: "(window_spread d cs)\<^sup>2 = (n * d\<^sup>2 - 2 * d * S + Q) / n" for d
    unfolding window_spread_def n_def[symmetric] using nonneg[of d] by (simp add: expand)
  have m: "window_mean cs = S / n"
    by (simp add: window_mean_def S_def n_def)
  show ?thesis
    unfolding window_stddev_def sq m using n
    by (simp add: field_simps power2_eq_square)
qed

lemma spread_ge_stddev:
  assumes "cs \<noteq> []"
  shows "window_stddev cs \<le> window_spread c cs"
proof -
  have "(window_stddev cs)\<^sup>2 \<le> (window_spread c cs)\<^sup>2"
    unfolding spread_stddev[OF assms] by simp
  moreover have "0 \<le> window_spread c cs"
    unfolding window_spread_def
    by (intro real_sqrt_ge_zero divide_nonneg_nonneg sum_list_nonneg) auto
  ultimately show ?thesis
    by (rule power2_le_imp_le)
qed


























lemma binade_below_range: "e - int k \<le> binade_below k e a \<and> binade_below k e a \<le> e"
proof (induction k arbitrary: e)
  case 0
  then show ?case by simp
next
  case (Suc k)
  from Suc[of "e - 1"] show ?case
    by auto
qed

lemma binade_below_low:
  "binade_below k e a = e - int k \<or> 2 powi (binade_below k e a) \<le> a"
proof (induction k arbitrary: e)
  case 0
  then show ?case by simp
next
  case (Suc k)
  from Suc[of "e - 1"] show ?case
    by auto
qed

lemma binade_below_high:
  "binade_below k e a = e \<or> a < 2 powi (binade_below k e a + 1)"
proof (induction k arbitrary: e)
  case 0
  then show ?case by simp
next
  case (Suc k)
  show ?case
  proof (cases "2 powi e \<le> a")
    case True
    then show ?thesis by simp
  next
    case False
    from Suc[of "e - 1"] show ?thesis
      using False by auto
  qed
qed

lemma binade_range:
  assumes "emin \<le> emax"
  shows "emin \<le> binade emin emax a" and "binade emin emax a \<le> emax"
  using binade_below_range[of emax "nat (emax - emin)" a] assms by (simp_all add: binade_def)

lemma binade_low:
  assumes "emin \<le> emax"
  shows "binade emin emax a = emin \<or> 2 powi (binade emin emax a) \<le> a"
  using binade_below_low[of "nat (emax - emin)" emax a] assms by (simp add: binade_def)

lemma binade_high:
  "binade emin emax a = emax \<or> a < 2 powi (binade emin emax a + 1)"
  using binade_below_high[of "nat (emax - emin)" emax a] by (simp add: binade_def)


lemma round_half_even_int: "round_half_even (of_int z) = z"
  by (simp add: round_half_even_def)

lemma round_half_even_nonneg: "0 \<le> q \<Longrightarrow> 0 \<le> round_half_even q"
  by (auto simp add: round_half_even_def)

lemma round_half_even_nonpos: "q \<le> 0 \<Longrightarrow> round_half_even q \<le> 0"
proof -
  assume q: "q \<le> 0"
  show ?thesis
  proof (cases "q = 0")
    case True
    then show ?thesis
      by (simp add: round_half_even_def)
  next
    case False
    then have "q < 0"
      using q by simp
    then have "\<lfloor>q\<rfloor> < 0"
      by (simp add: floor_less_iff)
    then have "\<lfloor>q\<rfloor> + 1 \<le> 0" and "\<lfloor>q\<rfloor> \<le> 0"
      by linarith+
    then show ?thesis
      unfolding round_half_even_def by presburger
  qed
qed

lemma largest_finite_pos: "0 < p \<Longrightarrow> 0 < largest_finite p emax"
proof -
  assume "0 < p"
  then have "(2::real) powi (1 - int p) \<le> 2 powi 0"
    by (intro power_int_increasing) simp_all
  then have "0 < 2 - (2::real) powi (1 - int p)"
    by simp
  then show ?thesis
    unfolding largest_finite_def by (intro mult_pos_pos zero_less_power_int) simp_all
qed

lemma two_powi_pos: "0 < (2::real) powi e"
  by (simp add: zero_less_power_int)

lemma two_powi_add: "(2::real) powi (a + b) = 2 powi a * 2 powi b"
  by (simp add: power_int_add)

lemma two_powi_less_exp: "(2::real) powi a < 2 powi b \<Longrightarrow> a < b"
proof (rule ccontr)
  assume lt: "(2::real) powi a < 2 powi b" and "\<not> a < b"
  then have "b \<le> a"
    by simp
  then have "(2::real) powi b \<le> 2 powi a"
    by (intro power_int_increasing) simp_all
  then show False
    using lt by simp
qed

lemma largest_finite_alt:
  "largest_finite p emax = (2 ^ p - 1) * 2 powi (emax - int p + 1)"
proof -
  have "(2::real) powi (emax - int p + 1) = 2 powi emax * 2 powi (1 - int p)"
    unfolding two_powi_add[symmetric] by (simp add: algebra_simps)
  moreover have "(2::real) ^ p * 2 powi (1 - int p) = 2"
  proof -
    have "(2::real) ^ p * 2 powi (1 - int p) = 2 powi (int p) * 2 powi (1 - int p)"
      by simp
    also have "\<dots> = 2 powi (int p + (1 - int p))"
      by (simp only: two_powi_add)
    finally show ?thesis
      by simp
  qed
  ultimately show ?thesis
    unfolding largest_finite_def by (simp add: algebra_simps)
qed

lemma binade_small:
  assumes "emin \<le> emax" and "a < 2 powi emin"
  shows "binade emin emax a = emin"
proof (rule ccontr)
  assume ne: "binade emin emax a \<noteq> emin"
  then have "2 powi (binade emin emax a) \<le> a"
    using binade_low[OF assms(1), of a] by simp
  moreover have "(2::real) powi emin \<le> 2 powi (binade emin emax a)"
    using binade_range(1)[OF assms(1), of a] by (intro power_int_increasing) simp_all
  ultimately show False
    using assms(2) by simp
qed

lemma binade_large:
  assumes "2 powi (emax + 1) \<le> a"
  shows "binade emin emax a = emax"
proof (rule ccontr)
  assume ne: "binade emin emax a \<noteq> emax"
  then have lt: "a < 2 powi (binade emin emax a + 1)"
    using binade_high[of emin emax a] by simp
  then have "(2::real) powi (emax + 1) < 2 powi (binade emin emax a + 1)"
    using assms by simp
  then have "emax < binade emin emax a"
    using two_powi_less_exp by fastforce
  moreover have "binade emin emax a \<le> emax"
    using binade_below_range[of emax "nat (emax - emin)" a] by (simp add: binade_def)
  ultimately show False
    by simp
qed

lemma round_to_nonneg:
  assumes "0 < p" and "0 \<le> x"
  shows "Fin 0 \<le> round_to p emin emax x"
proof -
  let ?s = "(2::real) powi (binade emin emax \<bar>x\<bar> - int p + 1)"
  let ?y = "of_int (round_half_even (x / ?s)) * ?s"
  have "0 \<le> x / ?s"
    using assms(2) two_powi_pos[of "binade emin emax \<bar>x\<bar> - int p + 1"] by simp
  then have "0 \<le> ?y"
    using round_half_even_nonneg two_powi_pos[of "binade emin emax \<bar>x\<bar> - int p + 1"]
    by (intro mult_nonneg_nonneg) simp_all
  then show ?thesis
    using largest_finite_pos[OF assms(1), of emax] by (simp add: round_to_def Let_def)
qed

lemma round_to_nonpos:
  assumes "0 < p" and "x \<le> 0"
  shows "round_to p emin emax x \<le> Fin 0"
proof -
  let ?s = "(2::real) powi (binade emin emax \<bar>x\<bar> - int p + 1)"
  let ?y = "of_int (round_half_even (x / ?s)) * ?s"
  have "x / ?s \<le> 0"
    using assms(2) two_powi_pos[of "binade emin emax \<bar>x\<bar> - int p + 1"]
    by (simp add: divide_nonpos_pos)
  then have "round_half_even (x / ?s) \<le> 0"
    by (rule round_half_even_nonpos)
  then have "?y \<le> 0"
    using two_powi_pos[of "binade emin emax \<bar>x\<bar> - int p + 1"]
    by (intro mult_nonpos_nonneg) simp_all
  then show ?thesis
    using largest_finite_pos[OF assms(1), of emax] by (simp add: round_to_def Let_def)
qed

lemma round_to_exact:
  assumes p: "0 < p" and range: "emin \<le> emax"
    and x: "x = of_int m * 2 powi k" and m: "\<bar>m\<bar> < 2 ^ p"
    and low: "emin - int p + 1 \<le> k" and high: "k \<le> emax - int p + 1"
  shows "round_to p emin emax x = Fin x"
proof -
  let ?b = "binade emin emax \<bar>x\<bar>"
  let ?s = "(2::real) powi (?b - int p + 1)"
  have absx: "\<bar>x\<bar> = of_int \<bar>m\<bar> * 2 powi k"
    using two_powi_pos[of k] by (simp add: x abs_mult)
  have "of_int \<bar>m\<bar> < (2::real) ^ p"
    using m by (metis of_int_less_iff of_int_numeral of_int_power)
  then have lt: "\<bar>x\<bar> < 2 powi (int p + k)"
    unfolding absx two_powi_add using two_powi_pos[of k] by simp
  have b_le: "?b - int p + 1 \<le> k"
  proof (cases "?b = emin")
    case True
    then show ?thesis
      using low by simp
  next
    case False
    then have "2 powi ?b \<le> \<bar>x\<bar>"
      using binade_low[OF range, of "\<bar>x\<bar>"] by simp
    then have "(2::real) powi ?b < 2 powi (int p + k)"
      using lt by simp
    then have "?b < int p + k"
      by (rule two_powi_less_exp)
    then show ?thesis
      by simp
  qed
  define j where "j = nat (k - (?b - int p + 1))"
  define s where "s = (2::real) powi (?b - int p + 1)"
  have spos: "0 < s"
    unfolding s_def by (rule two_powi_pos)
  have k: "k = (?b - int p + 1) + int j"
    using b_le by (simp add: j_def)
  have "(2::real) powi ((?b - int p + 1) + int j) = s * 2 ^ j"
    unfolding s_def by (simp only: two_powi_add power_int_of_nat)
  then have split: "(2::real) powi k = s * 2 ^ j"
    using k by simp
  have xs: "x = of_int (m * 2 ^ j) * s"
    using x split by simp
  then have q: "x / s = of_int (m * 2 ^ j)"
    using spos by simp
  have "of_int (round_half_even (x / s)) * s = x"
    unfolding q round_half_even_int using xs by simp
  then have y: "of_int (round_half_even (x / ?s)) * ?s = x"
    unfolding s_def .
  have "of_int \<bar>m\<bar> \<le> (2::real) ^ p - 1"
  proof -
    have "\<bar>m\<bar> \<le> 2 ^ p - 1"
      using m by simp
    then have "of_int \<bar>m\<bar> \<le> (of_int (2 ^ p - 1) :: real)"
      by (simp only: of_int_le_iff)
    then show ?thesis
      by simp
  qed
  then have "\<bar>x\<bar> \<le> (2 ^ p - 1) * 2 powi k"
    unfolding absx using two_powi_pos[of k] by (intro mult_right_mono) simp_all
  also have "\<dots> \<le> (2 ^ p - 1) * 2 powi (emax - int p + 1)"
    using high by (intro mult_left_mono power_int_increasing) simp_all
  finally have bound: "\<bar>x\<bar> \<le> largest_finite p emax"
    by (simp only: largest_finite_alt)
  show ?thesis
    unfolding round_to_def Let_def y using bound by auto
qed


lemma round_to_eval_subnormal:
  assumes "emin \<le> emax" and "\<bar>x\<bar> < 2 powi emin"
    and "round_half_even (x / 2 powi (emin - int p + 1)) = n"
    and "\<bar>of_int n * 2 powi (emin - int p + 1)\<bar> \<le> largest_finite p emax"
  shows "round_to p emin emax x = Fin (of_int n * 2 powi (emin - int p + 1))"
proof -
  have b: "binade emin emax \<bar>x\<bar> = emin"
    using assms(1,2) by (rule binade_small)
  show ?thesis
    unfolding round_to_def Let_def b assms(3) using assms(4) by auto
qed

lemma round_half_even_ge:
  assumes "of_int z \<le> q"
  shows "z \<le> round_half_even q"
proof -
  have "z \<le> \<lfloor>q\<rfloor>"
    using assms by (simp add: le_floor_iff)
  then show ?thesis
    by (auto simp add: round_half_even_def)
qed

lemma round_to_overflow:
  assumes "0 < p" and "2 powi (emax + 1) \<le> x"
  shows "round_to p emin emax x = PInf"
proof -
  have xpos: "0 < x"
    using assms(2) two_powi_pos[of "emax + 1"] by linarith
  then have ax: "\<bar>x\<bar> = x"
    by simp
  have b: "binade emin emax \<bar>x\<bar> = emax"
    unfolding ax using assms(2) by (rule binade_large)
  let ?s = "(2::real) powi (emax - int p + 1)"
  have s: "(2::real) powi (emax + 1) = 2 ^ p * ?s"
  proof -
    have "(2::real) ^ p * ?s = 2 powi (int p) * ?s"
      by simp
    also have "\<dots> = 2 powi (int p + (emax - int p + 1))"
      by (simp only: two_powi_add)
    finally show ?thesis
      by simp
  qed
  have "(2::real) ^ p \<le> x / ?s"
    using assms(2) two_powi_pos[of "emax - int p + 1"] unfolding s by (simp add: pos_le_divide_eq)
  then have "of_int (2 ^ p) \<le> x / ?s"
    by simp
  then have "2 ^ p \<le> round_half_even (x / ?s)"
    by (rule round_half_even_ge)
  then have "(of_int (2 ^ p) :: real) \<le> of_int (round_half_even (x / ?s))"
    by (simp only: of_int_le_iff)
  then have "of_int (2 ^ p) * ?s \<le> of_int (round_half_even (x / ?s)) * ?s"
    using two_powi_pos[of "emax - int p + 1"] by (intro mult_right_mono) simp_all
  then have ge: "(2::real) ^ p * ?s \<le> of_int (round_half_even (x / ?s)) * ?s"
    by simp
  have "largest_finite p emax < 2 ^ p * ?s"
    unfolding largest_finite_alt using two_powi_pos[of "emax - int p + 1"] by simp
  then have "largest_finite p emax < of_int (round_half_even (x / ?s)) * ?s"
    using ge by (rule less_le_trans)
  then show ?thesis
    unfolding round_to_def Let_def b by simp
qed

lemma round_half_even_nonzero:
  assumes "1 \<le> \<bar>q\<bar>"
  shows "round_half_even q \<noteq> 0"
proof (cases "0 \<le> q")
  case True
  then have "of_int 1 \<le> q"
    using assms by simp
  then have "1 \<le> round_half_even q"
    by (rule round_half_even_ge)
  then show ?thesis
    by simp
next
  case False
  then have q: "q \<le> - 1"
    using assms by simp
  then have f: "\<lfloor>q\<rfloor> \<le> - 1"
    by (simp add: floor_le_iff)
  show ?thesis
  proof (cases "\<lfloor>q\<rfloor> = - 1")
    case True
    then have "- 1 \<le> q"
      using of_int_floor_le[of q] by simp
    then have "q = of_int \<lfloor>q\<rfloor>"
      using q True by simp
    then have "round_half_even q = \<lfloor>q\<rfloor>"
      using round_half_even_int[of "\<lfloor>q\<rfloor>"] by simp
    then show ?thesis
      using True by simp
  next
    case False
    then have "\<lfloor>q\<rfloor> + 1 < 0" and "\<lfloor>q\<rfloor> < 0"
      using f by linarith+
    then show ?thesis
      by (auto simp add: round_half_even_def)
  qed
qed

lemma round_to_nonzero:
  assumes "emin \<le> emax" and "2 powi (emin - int p + 1) \<le> \<bar>x\<bar>" and "0 < p"
  shows "round_to p emin emax x \<noteq> Fin 0"
proof -
  let ?b = "binade emin emax \<bar>x\<bar>"
  define s where "s = (2::real) powi (?b - int p + 1)"
  have spos: "0 < s"
    unfolding s_def by (rule two_powi_pos)
  have "s \<le> \<bar>x\<bar>"
  proof (cases "?b = emin")
    case True
    then show ?thesis
      using assms(2) by (simp add: s_def)
  next
    case False
    then have "2 powi ?b \<le> \<bar>x\<bar>"
      using binade_low[OF assms(1), of "\<bar>x\<bar>"] by simp
    moreover have "s \<le> 2 powi ?b"
      unfolding s_def using assms(3) by (intro power_int_increasing) simp_all
    ultimately show ?thesis
      by simp
  qed
  then have "1 \<le> \<bar>x\<bar> / s"
    using spos by (simp add: pos_le_divide_eq)
  then have "1 \<le> \<bar>x / s\<bar>"
    using spos by simp
  then have "round_half_even (x / s) \<noteq> 0"
    by (rule round_half_even_nonzero)
  then have "of_int (round_half_even (x / s)) * s \<noteq> 0"
    using spos by simp
  then show ?thesis
    unfolding round_to_def Let_def s_def by auto
qed

lemma intersects_with_ray_entry_exit:
  "intersects_with_ray b ray reciprocal is_negative
     = (Fin 0 \<le> box_exit b ray reciprocal is_negative
        \<and> box_entry b ray reciprocal is_negative \<le> box_exit b ray reciprocal is_negative)"
  by (cases is_negative; cases "fst is_negative"; cases "fst (snd is_negative)";
      cases "snd (snd is_negative)")
    (simp_all add: intersects_with_ray_def box_entry_def box_exit_def slab_entry_def slab_exit_def
      Let_def)

lemma binary32_nonneg: "0 \<le> x \<Longrightarrow> Fin 0 \<le> binary32 x"
  unfolding binary32_def by (rule round_to_nonneg) simp_all

lemma binary32_nonpos: "x \<le> 0 \<Longrightarrow> binary32 x \<le> Fin 0"
  unfolding binary32_def by (rule round_to_nonpos) simp_all

lemma round_to_bounded:
  assumes "round_to p emin emax x = Fin y"
  shows "\<bar>y\<bar> \<le> largest_finite p emax"
  using assms unfolding round_to_def Let_def by (auto split: if_splits)

lemma is_float_bounded:
  assumes "is_float (Fin d)"
  shows "\<bar>d\<bar> < 2 ^ 128"
proof -
  have "binary32 d = Fin d"
    using assms by (simp add: is_float_def)
  then have "\<bar>d\<bar> \<le> largest_finite 24 127"
    unfolding binary32_def by (rule round_to_bounded)
  moreover have "largest_finite 24 127 < 2 ^ 128"
    by (simp add: largest_finite_def)
  ultimately show ?thesis
    by simp
qed

lemma reciprocal_nonzero:
  assumes "is_float (Fin d)" and "d \<noteq> 0"
  shows "div_float (Fin 1) (Fin d) \<noteq> Fin 0"
proof -
  have b: "\<bar>d\<bar> < 2 ^ 128" and pos: "0 < \<bar>d\<bar>"
    using is_float_bounded[OF assms(1)] assms(2) by simp_all
  have "1 / 2 ^ 128 \<le> 1 / \<bar>d\<bar>"
    using b pos by (intro divide_left_mono) simp_all
  moreover have "(2::real) powi (- 126 - int 24 + 1) \<le> 1 / 2 ^ 128"
    by simp
  ultimately have "(2::real) powi (- 126 - int 24 + 1) \<le> \<bar>1 / d\<bar>"
    by simp
  then have "round_to 24 (- 126) 127 (1 / d) \<noteq> Fin 0"
    by (intro round_to_nonzero) simp_all
  then show ?thesis
    using assms(2) by (simp add: div_float_def binary32_def)
qed

lemma reciprocal_positive:
  assumes "is_float (Fin d)" and "0 < d"
  shows "Fin 0 < div_float (Fin 1) (Fin d)"
proof -
  have "Fin 0 \<le> binary32 (1 / d)"
    using assms(2) by (intro binary32_nonneg) simp
  moreover have "binary32 (1 / d) \<noteq> Fin 0"
    using reciprocal_nonzero[OF assms(1)] assms(2) by (simp add: div_float_def)
  ultimately have "Fin 0 < binary32 (1 / d)"
    by (cases "binary32 (1 / d)") auto
  then show ?thesis
    using assms(2) by (simp add: div_float_def)
qed

lemma reciprocal_negative:
  assumes "is_float (Fin d)" and "d < 0"
  shows "div_float (Fin 1) (Fin d) < Fin 0"
proof -
  have "binary32 (1 / d) \<le> Fin 0"
    using assms(2) by (intro binary32_nonpos) (simp add: divide_nonneg_neg le_less)
  moreover have "binary32 (1 / d) \<noteq> Fin 0"
    using reciprocal_nonzero[OF assms(1)] assms(2) by (simp add: div_float_def)
  ultimately have "binary32 (1 / d) < Fin 0"
    by (cases "binary32 (1 / d)") auto
  then show ?thesis
    using assms(2) by (simp add: div_float_def)
qed

lemma sub_float_nonpos: "l \<le> x \<Longrightarrow> sub_float (Fin l) (Fin x) \<le> Fin 0"
  using binary32_nonpos[of "l - x"] by (simp add: sub_float_def minus_fl_def)

lemma sub_float_nonneg: "x \<le> h \<Longrightarrow> Fin 0 \<le> sub_float (Fin h) (Fin x)"
  using binary32_nonneg[of "h - x"] by (simp add: sub_float_def minus_fl_def)

lemma mul_float_nonpos_pos:
  assumes "u \<le> Fin 0" and "Fin 0 < r" and "is_fin r"
  shows "mul_float u r \<le> Fin 0"
proof -
  obtain r' where r: "r = Fin r'" "0 < r'"
    using assms(2,3) by (cases r) auto
  show ?thesis
  proof (cases u)
    case (Fin u')
    then have "u' * r' \<le> 0"
      using assms(1) r(2) by (simp add: mult_nonpos_nonneg)
    then show ?thesis
      using binary32_nonpos[of "u' * r'"] by (simp add: mul_float_def Fin r)
  qed (use assms(1) r in \<open>simp_all add: mul_float_def\<close>)
qed

lemma mul_float_nonneg_pos:
  assumes "Fin 0 \<le> u" and "Fin 0 < r" and "is_fin r"
  shows "Fin 0 \<le> mul_float u r"
proof -
  obtain r' where r: "r = Fin r'" "0 < r'"
    using assms(2,3) by (cases r) auto
  show ?thesis
  proof (cases u)
    case (Fin u')
    then have "0 \<le> u' * r'"
      using assms(1) r(2) by simp
    then show ?thesis
      using binary32_nonneg[of "u' * r'"] by (simp add: mul_float_def Fin r)
  qed (use assms(1) r in \<open>simp_all add: mul_float_def\<close>)
qed

lemma mul_float_nonpos_neg:
  assumes "u \<le> Fin 0" and "r < Fin 0" and "is_fin r"
  shows "Fin 0 \<le> mul_float u r"
proof -
  obtain r' where r: "r = Fin r'" "r' < 0"
    using assms(2,3) by (cases r) auto
  show ?thesis
  proof (cases u)
    case (Fin u')
    then have "0 \<le> u' * r'"
      using assms(1) r(2) by (simp add: mult_nonpos_nonpos)
    then show ?thesis
      using binary32_nonneg[of "u' * r'"] by (simp add: mul_float_def Fin r)
  qed (use assms(1) r in \<open>simp_all add: mul_float_def\<close>)
qed

lemma mul_float_nonneg_neg:
  assumes "Fin 0 \<le> u" and "r < Fin 0" and "is_fin r"
  shows "mul_float u r \<le> Fin 0"
proof -
  obtain r' where r: "r = Fin r'" "r' < 0"
    using assms(2,3) by (cases r) auto
  show ?thesis
  proof (cases u)
    case (Fin u')
    then have "u' * r' \<le> 0"
      using assms(1) r(2) by (simp add: mult_nonneg_nonpos)
    then show ?thesis
      using binary32_nonpos[of "u' * r'"] by (simp add: mul_float_def Fin r)
  qed (use assms(1) r in \<open>simp_all add: mul_float_def\<close>)
qed

lemma slab_origin_inside:
  assumes "l \<le> x" and "x \<le> h" and "is_float (Fin d)" and "d \<noteq> 0"
    and "is_fin (div_float (Fin 1) (Fin d))"
  shows "slab_entry (Fin l) (Fin h) (Fin x) (div_float (Fin 1) (Fin d)) (Fin d < Fin 0) \<le> Fin 0"
    and "Fin 0 \<le> slab_exit (Fin l) (Fin h) (Fin x) (div_float (Fin 1) (Fin d)) (Fin d < Fin 0)"
proof -
  show "slab_entry (Fin l) (Fin h) (Fin x) (div_float (Fin 1) (Fin d)) (Fin d < Fin 0) \<le> Fin 0"
  proof (cases "d < 0")
    case True
    then show ?thesis
      using mul_float_nonneg_neg[OF sub_float_nonneg[OF assms(2)]
          reciprocal_negative[OF assms(3) True] assms(5)]
      by (simp add: slab_entry_def)
  next
    case False
    then have "0 < d"
      using assms(4) by simp
    then show ?thesis
      using mul_float_nonpos_pos[OF sub_float_nonpos[OF assms(1)]
          reciprocal_positive[OF assms(3) \<open>0 < d\<close>] assms(5)] False
      by (simp add: slab_entry_def)
  qed
  show "Fin 0 \<le> slab_exit (Fin l) (Fin h) (Fin x) (div_float (Fin 1) (Fin d)) (Fin d < Fin 0)"
  proof (cases "d < 0")
    case True
    then show ?thesis
      using mul_float_nonpos_neg[OF sub_float_nonpos[OF assms(1)]
          reciprocal_negative[OF assms(3) True] assms(5)]
      by (simp add: slab_exit_def)
  next
    case False
    then have "0 < d"
      using assms(4) by simp
    then show ?thesis
      using mul_float_nonneg_pos[OF sub_float_nonneg[OF assms(2)]
          reciprocal_positive[OF assms(3) \<open>0 < d\<close>] assms(5)] False
      by (simp add: slab_exit_def)
  qed
qed

lemma std_max_le: "a \<le> c \<Longrightarrow> b \<le> c \<Longrightarrow> std_max a b \<le> c"
  by (simp add: std_max_def)

lemma std_min_ge: "c \<le> a \<Longrightarrow> c \<le> b \<Longrightarrow> c \<le> std_min a b"
  by (simp add: std_min_def)

lemma binary32_dyadic:
  assumes "\<bar>m\<bar> < 2 ^ 24" and "- 149 \<le> k" and "k \<le> 104"
  shows "binary32 (of_int m * 2 powi k) = Fin (of_int m * 2 powi k)"
  unfolding binary32_def using assms by (intro round_to_exact[of _ _ _ _ m k]) simp_all

lemma is_float_dyadic:
  assumes "\<bar>m\<bar> < 2 ^ 24" and "- 149 \<le> k" and "k \<le> 104"
  shows "is_float (Fin (of_int m * 2 powi k))"
  using binary32_dyadic[OF assms] by (simp add: is_float_def)

lemma binary32_int: "\<bar>m\<bar> < 2 ^ 24 \<Longrightarrow> binary32 (of_int m) = Fin (of_int m)"
  using binary32_dyadic[of m 0] by simp

lemma binary32_overflow: "2 ^ 128 \<le> x \<Longrightarrow> binary32 x = PInf"
  unfolding binary32_def by (rule round_to_overflow) simp_all

lemma std_max_nan: "std_max NaN a = NaN"
  by (simp add: std_max_def)

lemma vec3_sel_fvec: "vx (fvec a b c) = Fin a" "vy (fvec a b c) = Fin b" "vz (fvec a b c) = Fin c"
  by (simp_all add: fvec_def)

lemma Ray_ctor_sel:
  "m_origin (Ray_ctor origin direction) = origin"
  "m_direction (Ray_ctor origin direction) = direction"
  "direction_reciprocal (Ray_ctor origin direction) =
     vec3 (div_float (Fin 1) (vx direction)) (div_float (Fin 1) (vy direction))
          (div_float (Fin 1) (vz direction))"
  by (simp_all add: Ray_ctor_def)

text \<open>
  Claim C2, as the code has it. For every box, ray, reciprocal and sign flags the test
  returns true exactly when the exit distance is at least zero and the entry distance is
  at most the exit distance, where the entry distance is the largest and the exit
  distance the smallest of the per-axis distances, each the \<^verbatim>\<open>float\<close> product of the
  \<^verbatim>\<open>float\<close> difference of a bound and the origin with the reciprocal, the two swapped on an
  axis whose flag is set. For a ray made by the constructor from an origin inside a box
  of finite bounds and a direction of three nonzero floats whose reciprocals are finite,
  the entry distance is at most zero, the exit distance at least zero, and the test
  returns true.
\<close>

theorem slab_test:
  "intersects_with_ray b ray reciprocal is_negative
     = (Fin 0 \<le> box_exit b ray reciprocal is_negative
        \<and> box_entry b ray reciprocal is_negative \<le> box_exit b ray reciprocal is_negative)
   \<and> (finite_box b \<and> finite_vec origin \<and> contains_point b origin
        \<and> float_vec direction
        \<and> vx direction \<noteq> Fin 0 \<and> vy direction \<noteq> Fin 0 \<and> vz direction \<noteq> Fin 0
        \<and> finite_vec (direction_reciprocal (Ray_ctor origin direction))
      \<longrightarrow>
        (let inside = Ray_ctor origin direction;
             entry = box_entry b inside (direction_reciprocal inside)
                       (ray_direction_is_negative_of inside);
             exit = box_exit b inside (direction_reciprocal inside)
                      (ray_direction_is_negative_of inside)
         in entry \<le> Fin 0 \<and> Fin 0 \<le> exit
            \<and> intersects_with_ray b inside (direction_reciprocal inside)
                 (ray_direction_is_negative_of inside)))"
proof (intro conjI impI)
  show "intersects_with_ray b ray reciprocal is_negative
     = (Fin 0 \<le> box_exit b ray reciprocal is_negative
        \<and> box_entry b ray reciprocal is_negative \<le> box_exit b ray reciprocal is_negative)"
    by (rule intersects_with_ray_entry_exit)
next
  assume h: "finite_box b \<and> finite_vec origin \<and> contains_point b origin
        \<and> float_vec direction
        \<and> vx direction \<noteq> Fin 0 \<and> vy direction \<noteq> Fin 0 \<and> vz direction \<noteq> Fin 0
        \<and> finite_vec (direction_reciprocal (Ray_ctor origin direction))"
  obtain l1 l2 l3 h1 h2 h3 where box: "min_slab_values b = fvec l1 l2 l3" "max_slab_values b = fvec h1 h2 h3"
    using h finite_box_iff[of b] by auto
  obtain x1 x2 x3 where orig: "origin = fvec x1 x2 x3"
    using h finite_vec_iff[of origin] by auto
  have fl: "is_float (vx direction)" "is_float (vy direction)" "is_float (vz direction)"
    using h by (simp_all add: float_vec_def)
  then obtain d1 d2 d3 where dir: "direction = fvec d1 d2 d3"
    by (cases direction; cases "vx direction"; cases "vy direction"; cases "vz direction")
      (simp_all add: is_float_def fvec_def)
  have inside: "l1 \<le> x1" "x1 \<le> h1" "l2 \<le> x2" "x2 \<le> h2" "l3 \<le> x3" "x3 \<le> h3"
    using h by (simp_all add: contains_point_def box orig vec3_sel_fvec)
  have nz: "d1 \<noteq> 0" "d2 \<noteq> 0" "d3 \<noteq> 0"
    using h by (simp_all add: dir vec3_sel_fvec)
  have fd: "is_float (Fin d1)" "is_float (Fin d2)" "is_float (Fin d3)"
    using fl by (simp_all add: dir vec3_sel_fvec)
  have fr: "is_fin (div_float (Fin 1) (Fin d1))" "is_fin (div_float (Fin 1) (Fin d2))"
    "is_fin (div_float (Fin 1) (Fin d3))"
    using h by (simp_all add: Ray_ctor_sel dir vec3_sel_fvec finite_vec_def)
  note sx = slab_origin_inside[OF inside(1,2) fd(1) nz(1) fr(1)]
  note sy = slab_origin_inside[OF inside(3,4) fd(2) nz(2) fr(2)]
  note sz = slab_origin_inside[OF inside(5,6) fd(3) nz(3) fr(3)]
  have entry: "box_entry b (Ray_ctor origin direction)
                 (direction_reciprocal (Ray_ctor origin direction))
                 (ray_direction_is_negative_of (Ray_ctor origin direction)) \<le> Fin 0"
    unfolding box_entry_def ray_direction_is_negative_of_def Ray_ctor_sel box orig dir
      vec3_sel_fvec vec3.sel fst_conv snd_conv
    by (intro std_max_le sx(1) sy(1) sz(1))
  have exit: "Fin 0 \<le> box_exit b (Ray_ctor origin direction)
                 (direction_reciprocal (Ray_ctor origin direction))
                 (ray_direction_is_negative_of (Ray_ctor origin direction))"
    unfolding box_exit_def ray_direction_is_negative_of_def Ray_ctor_sel box orig dir
      vec3_sel_fvec vec3.sel fst_conv snd_conv
    by (intro std_min_ge sx(2) sy(2) sz(2))
  show "let inside = Ray_ctor origin direction;
             entry = box_entry b inside (direction_reciprocal inside)
                       (ray_direction_is_negative_of inside);
             exit = box_exit b inside (direction_reciprocal inside)
                      (ray_direction_is_negative_of inside)
         in entry \<le> Fin 0 \<and> Fin 0 \<le> exit
            \<and> intersects_with_ray b inside (direction_reciprocal inside)
                 (ray_direction_is_negative_of inside)"
    unfolding Let_def intersects_with_ray_entry_exit
    using entry exit fl_le_trans[OF entry exit] by simp
qed

lemma binary32_values:
  "binary32 0 = Fin 0" "binary32 1 = Fin 1" "binary32 (- 2) = Fin (- 2)" "binary32 4 = Fin 4"
  "binary32 (- (1 / 2)) = Fin (- (1 / 2))" "binary32 (1 / 4) = Fin (1 / 4)"
  using binary32_int[of 0] binary32_int[of 1] binary32_int[of "- 2"] binary32_int[of 4]
    binary32_dyadic[of "- 1" "- 1"] binary32_dyadic[of 1 "- 2"]
  by simp_all

lemma is_float_tiny: "is_float (Fin (2 powi - 130))"
  using is_float_dyadic[of 1 "- 130"] by simp

theorem slab_test_witness:
  "intersects_with_ray unit_cube inner_ray (direction_reciprocal inner_ray)
     (ray_direction_is_negative_of inner_ray)
   \<and> box_entry unit_cube inner_ray (direction_reciprocal inner_ray)
        (ray_direction_is_negative_of inner_ray) \<le> Fin 0
   \<and> Fin 0 \<le> box_exit unit_cube inner_ray (direction_reciprocal inner_ray)
        (ray_direction_is_negative_of inner_ray)"
proof -
  have box: "finite_box unit_cube" "finite_vec (fvec (1 / 2) (1 / 2) (1 / 2))"
    "contains_point unit_cube (fvec (1 / 2) (1 / 2) (1 / 2))"
    by (simp_all add: unit_cube_def finite_box_def finite_vec_def contains_point_def fvec_def)
  have dir: "float_vec (fvec 1 (- 2) 4)"
    "vx (fvec 1 (- 2) 4) \<noteq> Fin 0" "vy (fvec 1 (- 2) 4) \<noteq> Fin 0" "vz (fvec 1 (- 2) 4) \<noteq> Fin 0"
    by (simp_all add: float_vec_def is_float_def vec3_sel_fvec binary32_values)
  have rec: "finite_vec (direction_reciprocal (Ray_ctor (fvec (1 / 2) (1 / 2) (1 / 2)) (fvec 1 (- 2) 4)))"
    by (simp add: Ray_ctor_sel vec3_sel_fvec div_float_def binary32_values finite_vec_def)
  have r: "inner_ray = Ray_ctor (fvec (1 / 2) (1 / 2) (1 / 2)) (fvec 1 (- 2) 4)"
    by (simp add: inner_ray_def)
  show ?thesis
    using slab_test[of unit_cube inner_ray "direction_reciprocal inner_ray"
        "ray_direction_is_negative_of inner_ray" "fvec (1 / 2) (1 / 2) (1 / 2)" "fvec 1 (- 2) 4"]
      box dir rec
    unfolding r Let_def by blast
qed

theorem slab_test_rejects_origin_on_face:
  "contains_point unit_cube (m_origin shallow_ray)
   \<and> float_vec (m_direction shallow_ray)
   \<and> vx (m_direction shallow_ray) \<noteq> Fin 0
   \<and> vy (m_direction shallow_ray) \<noteq> Fin 0
   \<and> vz (m_direction shallow_ray) \<noteq> Fin 0
   \<and> \<not> intersects_with_ray unit_cube shallow_ray (direction_reciprocal shallow_ray)
         (ray_direction_is_negative_of shallow_ray)"
proof -
  have o: "m_origin shallow_ray = fvec 0 (1 / 2) (1 / 2)"
    and d: "m_direction shallow_ray = fvec (2 powi - 130) 1 1"
    by (simp_all add: shallow_ray_def Ray_ctor_sel)
  have inside: "contains_point unit_cube (m_origin shallow_ray)"
    by (simp add: o unit_cube_def contains_point_def fvec_def)
  have fl: "float_vec (m_direction shallow_ray)"
    unfolding d float_vec_def vec3_sel_fvec using is_float_tiny
    by (simp add: is_float_def binary32_values)
  have nz: "vx (m_direction shallow_ray) \<noteq> Fin 0" "vy (m_direction shallow_ray) \<noteq> Fin 0"
    "vz (m_direction shallow_ray) \<noteq> Fin 0"
    by (simp_all add: d vec3_sel_fvec)
  have "binary32 (1 / 2 powi - 130) = PInf"
    by (rule binary32_overflow) simp
  then have rx: "vx (direction_reciprocal shallow_ray) = PInf"
    by (simp add: shallow_ray_def Ray_ctor_sel vec3_sel_fvec div_float_def)
  have neg: "fst (ray_direction_is_negative_of shallow_ray) = False"
    by (simp add: ray_direction_is_negative_of_def d vec3_sel_fvec)
  have "slab_entry (vx (min_slab_values unit_cube)) (vx (max_slab_values unit_cube))
          (vx (m_origin shallow_ray)) (vx (direction_reciprocal shallow_ray))
          (fst (ray_direction_is_negative_of shallow_ray)) = NaN"
    unfolding rx neg o
    by (simp add: slab_entry_def unit_cube_def vec3_sel_fvec sub_float_def mul_float_def
        minus_fl_def binary32_values)
  then have "box_entry unit_cube shallow_ray (direction_reciprocal shallow_ray)
               (ray_direction_is_negative_of shallow_ray) = NaN"
    unfolding box_entry_def by (simp only: std_max_nan)
  then have "\<not> intersects_with_ray unit_cube shallow_ray (direction_reciprocal shallow_ray)
         (ray_direction_is_negative_of shallow_ray)"
    unfolding intersects_with_ray_entry_exit by simp
  then show ?thesis
    using inside fl nz by simp
qed


































end
